theory Spec2Isabelle
  imports Complex_Main "HOL-Library.AList"
begin

section \<open>SpaceEd learning platform (spaced.js)\<close>

subsection \<open>Static data: the course catalogue and the badge catalogue\<close>

text \<open>
  A quiz of \<open>CoursesData\<close> carries its option texts and the 0-based index of the right
  option. The question text and a lesson's title and content markup are display payload and
  are left out; a lesson keeps its \<open>id\<close> and its optional quiz.
\<close>

record quizData =
  options :: "string list"
  correct :: nat

record lesson =
  lesson_id :: nat
  quiz :: "quizData option"

record course =
  totalLessons :: nat
  lessons :: "lesson list"

type_synonym catalog = "string \<Rightarrow> course option"

definition CoursesData_aerospace :: course where
  "CoursesData_aerospace = \<lparr>totalLessons = 15, lessons =
     [\<lparr>lesson_id = 1, quiz = Some \<lparr>options =
         [''Mechanical and Electrical Engineering'',
          ''Aeronautical and Astronautical Engineering'',
          ''Civil and Chemical Engineering'',
          ''Computer and Software Engineering''], correct = 1\<rparr>\<rparr>,
      \<lparr>lesson_id = 2, quiz = Some \<lparr>options =
         [''Thrust'', ''Drag'', ''Lift'', ''Pressure''], correct = 2\<rparr>\<rparr>,
      \<lparr>lesson_id = 3, quiz = Some \<lparr>options =
         [''Newton's First Law'', ''Newton's Second Law'', ''Newton's Third Law'',
          ''Bernoulli's Principle''], correct = 2\<rparr>\<rparr>]\<rparr>"

definition CoursesData_satellites :: course where
  "CoursesData_satellites = \<lparr>totalLessons = 12, lessons =
     [\<lparr>lesson_id = 1, quiz = Some \<lparr>options =
         [''Explorer 1'', ''Telstar 1'', ''Sputnik 1'', ''Echo 1''], correct = 2\<rparr>\<rparr>,
      \<lparr>lesson_id = 2, quiz = Some \<lparr>options =
         [''Polar orbit'', ''Sun-synchronous orbit'', ''Geostationary orbit'',
          ''Molniya orbit''], correct = 2\<rparr>\<rparr>]\<rparr>"

definition CoursesData_astronomy :: course where
  "CoursesData_astronomy = \<lparr>totalLessons = 18, lessons =
     [\<lparr>lesson_id = 1, quiz = Some \<lparr>options =
         [''93 million light years'', ''93 billion light years'',
          ''9.3 trillion light years'', ''93 trillion light years''], correct = 1\<rparr>\<rparr>,
      \<lparr>lesson_id = 2, quiz = Some \<lparr>options =
         [''7'', ''8'', ''9'', ''10''], correct = 1\<rparr>\<rparr>]\<rparr>"

definition CoursesData :: catalog where
  "CoursesData = map_of
    [(''aerospace'', CoursesData_aerospace),
     (''satellites'', CoursesData_satellites),
     (''astronomy'', CoursesData_astronomy)]"

text \<open>
  \<open>BadgeSystem.badges\<close>: identifier, display name and description of each badge (the icon
  glyph is left out).
\<close>

record badge =
  badge_id :: string
  badge_name :: string
  description :: string

definition BadgeSystem_badges :: "badge list" where
  "BadgeSystem_badges =
    [\<lparr>badge_id = ''first_lesson'', badge_name = ''First Steps'',
        description = ''Complete your first lesson''\<rparr>,
     \<lparr>badge_id = ''quiz_master'', badge_name = ''Quiz Master'',
        description = ''Pass 5 quizzes''\<rparr>,
     \<lparr>badge_id = ''week_streak'', badge_name = ''Consistent'',
        description = ''Maintain a 7-day streak''\<rparr>,
     \<lparr>badge_id = ''course_complete'', badge_name = ''Graduate'',
        description = ''Complete a full course''\<rparr>,
     \<lparr>badge_id = ''speed_learner'', badge_name = ''Speed Learner'',
        description = ''Complete 3 lessons in one day''\<rparr>,
     \<lparr>badge_id = ''explorer'', badge_name = ''Explorer'',
        description = ''Start all three courses''\<rparr>,
     \<lparr>badge_id = ''perfectionist'', badge_name = ''Perfectionist'',
        description = ''Get 100% on 5 quizzes''\<rparr>,
     \<lparr>badge_id = ''dedicated'', badge_name = ''Dedicated'',
        description = ''Study for 30 days total''\<rparr>]"

subsection \<open>Application state\<close>

text \<open>
  A calendar date is the string \<open>Date.toDateString()\<close> returns, in local time; the code
  only compares such strings for equality, so a date is represented by the number of
  its local day. A clock is what a handler reads when it runs: the instant
  \<open>Date.now()\<close> in milliseconds since the epoch, and the local time zone, given by its
  offset from UTC in milliseconds at each instant (the offset changes where daylight
  saving begins or ends). \<open>toDateString z ms\<close> is the local day the instant \<open>ms\<close> falls
  on in the zone \<open>z\<close>, and \<open>localDate now\<close> is \<open>new Date().toDateString()\<close>.
\<close>

type_synonym date = int

record clock =
  instant :: int
  zone :: "int \<Rightarrow> int"

definition toDateString :: "(int \<Rightarrow> int) \<Rightarrow> int \<Rightarrow> date" where
  "toDateString z ms = (ms + z ms) div 86400000"

definition localDate :: "clock \<Rightarrow> date" where
  "localDate now = toDateString (zone now) (instant now)"

text \<open>A clock in a zone without offset.\<close>

definition utc :: "int \<Rightarrow> clock" where
  "utc ms = \<lparr>instant = ms, zone = (\<lambda>t. 0)\<rparr>"

text \<open>
  \<open>AppState.userProgress\<close>. \<open>completedLessons\<close> is a JavaScript object from course
  identifier to an array of lesson indices: an association list in insertion order.
\<close>

record user_progress =
  completedLessons :: "(string \<times> nat list) list"
  streak :: int
  level :: int
  xp :: int
  lastLoginDate :: "date option"
  badges :: "string list"

record user =
  user_name :: string
  email :: string
  password :: string

text \<open>
  \<open>localStorage\<close>, split by the three key families the program uses: \<open>currentUser\<close>,
  \<open>user_<email>\<close> and \<open>userData_<email>\<close> (the latter two keyed here by the email).
  An item is text that \<open>JSON.parse\<close> rejects, or the text \<open>null\<close>, or text that decodes
  to an object of the shape the program writes; other decoded values (numbers, strings,
  arrays, objects that lack fields) are outside the model. The
  \<open>user_<email>\<close> items belong to the sign-up and login forms and are not read by the
  functions below.
\<close>

datatype 'a item = Malformed | JsonNull | Json 'a

record savedData =
  data_progress :: user_progress
  data_currentCourse :: "string option"
  data_currentLesson :: nat

record storage =
  currentUserItem :: "user item option"
  userItems :: "(string \<times> user item) list"
  userDataItems :: "(string \<times> savedData item) list"

text \<open>
  The part of the page the functions below write: the notifications shown, the alerts
  raised, the content of the quiz modal, whether the two modals are open and whether the
  two lesson navigation buttons are disabled.
  The quiz form remembers which radio input is checked, how many options it shows and
  the argument its Submit button passes to \<open>submitQuiz\<close>; the result view is generated
  from \<open>isCorrect\<close> alone.
\<close>

datatype notification =
    BadgeEarned string string
  | LevelUp int
  | Welcome string

datatype quizContent =
    NoQuiz
  | QuizForm "nat option" nat nat
  | QuizResults bool

record appState =
  currentUser :: "user option"
  currentPage :: string
  currentCourse :: "string option"
  currentLesson :: nat
  userProgress :: user_progress
  localStorage :: storage
  notifications :: "notification list"
  alerts :: "string list"
  quizContent :: quizContent
  quizModal :: bool
  certificateModal :: bool
  prevDisabled :: bool
  nextDisabled :: bool

definition defaultProgress :: user_progress where
  "defaultProgress =
    \<lparr>completedLessons = [], streak = 0, level = 1, xp = 0, lastLoginDate = None, badges = []\<rparr>"

text \<open>
  The state when the script has been evaluated, over the browser's stored items. The
  page's static markup is not part of the sources: the quiz modal is taken to start
  without a form, both modals closed and both navigation buttons enabled.
\<close>

definition AppState :: "storage \<Rightarrow> appState" where
  "AppState ls =
    \<lparr>currentUser = None, currentPage = ''home'', currentCourse = None, currentLesson = 0,
     userProgress = defaultProgress, localStorage = ls, notifications = [], alerts = [],
     quizContent = NoQuiz, quizModal = False, certificateModal = False,
     prevDisabled = False, nextDisabled = False\<rparr>"

definition emptyStorage :: storage where
  "emptyStorage = \<lparr>currentUserItem = None, userItems = [], userDataItems = []\<rparr>"

text \<open>
  An exception ends the running handler and leaves the state as mutated so far.
\<close>

datatype js_error = TypeError | SyntaxError

datatype result = Done appState | Thrown js_error appState

fun stateOf :: "result \<Rightarrow> appState" where
  "stateOf (Done st) = st"
| "stateOf (Thrown e st) = st"

text \<open>The property key a nullable course identifier is converted to.\<close>

fun keyOf :: "string option \<Rightarrow> string" where
  "keyOf None = ''null''"
| "keyOf (Some courseId) = courseId"

subsection \<open>Persistence, notifications and badges\<close>

definition showNotification :: "notification \<Rightarrow> appState \<Rightarrow> appState" where
  "showNotification n st = st\<lparr>notifications := notifications st @ [n]\<rparr>"

definition saveUserData :: "appState \<Rightarrow> appState" where
  "saveUserData st =
    (case currentUser st of
       None \<Rightarrow> st
     | Some u \<Rightarrow>
         st\<lparr>localStorage := (localStorage st)\<lparr>userDataItems :=
              AList.update (email u)
                (Json \<lparr>data_progress = userProgress st,
                       data_currentCourse = currentCourse st,
                       data_currentLesson = currentLesson st\<rparr>)
                (userDataItems (localStorage st))\<rparr>\<rparr>)"

definition showBadgeNotification :: "string \<Rightarrow> appState \<Rightarrow> appState" where
  "showBadgeNotification badgeId st =
    (case find (\<lambda>b. badge_id b = badgeId) BadgeSystem_badges of
       Some b \<Rightarrow> showNotification (BadgeEarned (badge_name b) (description b)) st
     | None \<Rightarrow> st)"

definition checkAndAwardBadge :: "string \<Rightarrow> appState \<Rightarrow> appState" where
  "checkAndAwardBadge badgeId st =
    (if badgeId \<notin> set (badges (userProgress st))
     then saveUserData (showBadgeNotification badgeId
            (st\<lparr>userProgress := (userProgress st)
                  \<lparr>badges := badges (userProgress st) @ [badgeId]\<rparr>\<rparr>))
     else st)"

subsection \<open>Level and streak\<close>

text \<open>
  \<open>newLevel\<close> is the constant of that name in \<open>updateLevel\<close>: \<open>Math.floor(xp / 100) + 1\<close>.
  XP is an integer far below \<open>2^53\<close>, where the floor of the floating-point quotient is the
  floor of the exact one.
\<close>

definition newLevel :: "int \<Rightarrow> int" where
  "newLevel x = \<lfloor>real_of_int x / 100\<rfloor> + 1"

definition updateLevel :: "appState \<Rightarrow> appState" where
  "updateLevel st =
    (if newLevel (xp (userProgress st)) > level (userProgress st)
     then showNotification (LevelUp (newLevel (xp (userProgress st))))
            (st\<lparr>userProgress := (userProgress st)\<lparr>level := newLevel (xp (userProgress st))\<rparr>\<rparr>)
     else st)"

definition updateStreak :: "clock \<Rightarrow> appState \<Rightarrow> appState" where
  "updateStreak now st =
    (let today = localDate now;
         lastLogin = lastLoginDate (userProgress st)
     in if lastLogin \<noteq> Some today then
          (let yesterday = toDateString (zone now) (instant now - 24 * 60 * 60 * 1000);
               st1 =
                 (if lastLogin = Some yesterday then
                    (let st2 = st\<lparr>userProgress := (userProgress st)
                                  \<lparr>streak := streak (userProgress st) + 1\<rparr>\<rparr>
                     in if streak (userProgress st2) \<ge> 7
                        then checkAndAwardBadge ''week_streak'' st2 else st2)
                  else if lastLogin \<noteq> Some today then
                    st\<lparr>userProgress := (userProgress st)\<lparr>streak := 1\<rparr>\<rparr>
                  else st)
           in st1\<lparr>userProgress := (userProgress st1)\<lparr>lastLoginDate := Some today\<rparr>\<rparr>)
        else st)"

subsection \<open>Progress tracking\<close>

definition completedOf :: "string \<Rightarrow> user_progress \<Rightarrow> nat list" where
  "completedOf courseId p =
    (case map_of (completedLessons p) courseId of None \<Rightarrow> [] | Some done \<Rightarrow> done)"

definition markLessonCompleted :: "clock \<Rightarrow> string \<Rightarrow> nat \<Rightarrow> appState \<Rightarrow> appState" where
  "markLessonCompleted now courseId lessonIndex st =
    (let p = userProgress st;
         p1 = (if map_of (completedLessons p) courseId = None
               then p\<lparr>completedLessons := AList.update courseId [] (completedLessons p)\<rparr>
               else p)
     in if lessonIndex \<notin> set (completedOf courseId p1)
        then saveUserData (updateStreak now (updateLevel
               (st\<lparr>userProgress := p1
                     \<lparr>completedLessons :=
                        AList.update courseId (completedOf courseId p1 @ [lessonIndex])
                          (completedLessons p1),
                      xp := xp p1 + 25\<rparr>\<rparr>)))
        else st\<lparr>userProgress := p1\<rparr>)"

definition isLessonCompleted :: "string \<Rightarrow> nat \<Rightarrow> appState \<Rightarrow> bool" where
  "isLessonCompleted courseId lessonIndex st =
    (case map_of (completedLessons (userProgress st)) courseId of
       None \<Rightarrow> False
     | Some done \<Rightarrow> lessonIndex \<in> set done)"

definition showCertificateModal :: "string option \<Rightarrow> appState \<Rightarrow> appState" where
  "showCertificateModal courseId st = st\<lparr>certificateModal := True\<rparr>"

definition completeCourse :: "string option \<Rightarrow> appState \<Rightarrow> appState" where
  "completeCourse courseId st =
    (let st1 = checkAndAwardBadge ''course_complete'' st;
         st2 = st1\<lparr>userProgress := (userProgress st1)\<lparr>xp := xp (userProgress st1) + 100\<rparr>\<rparr>
     in saveUserData (showCertificateModal courseId (updateLevel st2)))"

subsection \<open>Lesson management\<close>

text \<open>
  \<open>loadLesson\<close> reads \<open>course.lessons\<close>, which throws when the current course is not in
  the catalogue; past the end of the lesson array it returns at once; otherwise it shows
  the lesson, disables the Previous button on the first lesson and the Next button on
  the last one, and awards the first badge. The elements it writes are assumed to exist.
\<close>

definition loadLesson :: "catalog \<Rightarrow> nat \<Rightarrow> appState \<Rightarrow> result" where
  "loadLesson courses lessonIndex st =
    (case courses (keyOf (currentCourse st)) of
       None \<Rightarrow> Thrown TypeError st
     | Some course \<Rightarrow>
         if lessonIndex < length (lessons course)
         then Done (checkAndAwardBadge ''first_lesson''
                (st\<lparr>prevDisabled := (lessonIndex = 0),
                    nextDisabled := (int lessonIndex \<ge> int (length (lessons course)) - 1)\<rparr>))
         else Done st)"

definition previousLesson :: "catalog \<Rightarrow> appState \<Rightarrow> result" where
  "previousLesson courses st =
    (if currentLesson st > 0
     then loadLesson courses (currentLesson st - 1) (st\<lparr>currentLesson := currentLesson st - 1\<rparr>)
     else Done st)"

definition proceedToNextLesson :: "catalog \<Rightarrow> clock \<Rightarrow> appState \<Rightarrow> result" where
  "proceedToNextLesson courses now st =
    (let st1 = markLessonCompleted now (keyOf (currentCourse st)) (currentLesson st) st
     in case courses (keyOf (currentCourse st)) of
          None \<Rightarrow> Thrown TypeError st1
        | Some course \<Rightarrow>
            if int (currentLesson st1) < int (length (lessons course)) - 1
            then loadLesson courses (currentLesson st1 + 1)
                   (st1\<lparr>currentLesson := currentLesson st1 + 1\<rparr>)
            else Done (completeCourse (currentCourse st1) st1))"

subsection \<open>Quiz system\<close>

definition showQuiz :: "quizData \<Rightarrow> appState \<Rightarrow> appState" where
  "showQuiz q st =
    st\<lparr>quizContent := QuizForm None (length (options q)) (correct q), quizModal := True\<rparr>"

definition hideQuizModal :: "appState \<Rightarrow> appState" where
  "hideQuizModal st = st\<lparr>quizModal := False\<rparr>"

definition showQuizResults :: "bool \<Rightarrow> appState \<Rightarrow> appState" where
  "showQuizResults isCorrect st = st\<lparr>quizContent := QuizResults isCorrect\<rparr>"

text \<open>
  \<open>document.querySelector('input[name="quiz-answer"]:checked')\<close>: such inputs exist only
  inside a quiz form generated by \<open>showQuiz\<close>.
\<close>

fun checkedAnswer :: "quizContent \<Rightarrow> nat option" where
  "checkedAnswer (QuizForm sel n c) = sel"
| "checkedAnswer NoQuiz = None"
| "checkedAnswer (QuizResults r) = None"

definition submitQuiz :: "nat \<Rightarrow> appState \<Rightarrow> appState" where
  "submitQuiz correctAnswer st =
    (case checkedAnswer (quizContent st) of
       None \<Rightarrow> st\<lparr>alerts := alerts st @ [''Please select an answer before submitting.'']\<rparr>
     | Some userAnswer \<Rightarrow>
         (let isCorrect = (userAnswer = correctAnswer);
              st1 = showQuizResults isCorrect st;
              st2 = (if isCorrect
                     then checkAndAwardBadge ''quiz_master'' (updateLevel
                            (st1\<lparr>userProgress := (userProgress st1)
                                   \<lparr>xp := xp (userProgress st1) + 10\<rparr>\<rparr>))
                     else st1)
          in saveUserData st2))"

definition nextLesson :: "catalog \<Rightarrow> clock \<Rightarrow> appState \<Rightarrow> result" where
  "nextLesson courses now st =
    (case courses (keyOf (currentCourse st)) of
       None \<Rightarrow> Thrown TypeError st
     | Some course \<Rightarrow>
         (if currentLesson st < length (lessons course)
          then (case quiz (lessons course ! currentLesson st) of
                  Some q \<Rightarrow> Done (showQuiz q st)
                | None \<Rightarrow> proceedToNextLesson courses now st)
          else proceedToNextLesson courses now st))"

subsection \<open>Navigation, authentication and loading\<close>

definition navigateToPage :: "string \<Rightarrow> appState \<Rightarrow> appState" where
  "navigateToPage page st = st\<lparr>currentPage := page\<rparr>"

definition showCourseContent :: "catalog \<Rightarrow> appState \<Rightarrow> result" where
  "showCourseContent courses st =
    (case courses (keyOf (currentCourse st)) of
       None \<Rightarrow> Thrown TypeError st
     | Some course \<Rightarrow> loadLesson courses (currentLesson st) st)"

definition startCourse :: "catalog \<Rightarrow> string \<Rightarrow> appState \<Rightarrow> result" where
  "startCourse courses courseId st =
    (case showCourseContent courses
            (navigateToPage ''courses'' (st\<lparr>currentCourse := Some courseId, currentLesson := 0\<rparr>)) of
       Thrown e st1 \<Rightarrow> Thrown e st1
     | Done st1 \<Rightarrow>
         (let startedCourses = remdups (map fst (completedLessons (userProgress st1)))
          in if length startedCourses = 3
             then Done (checkAndAwardBadge ''explorer'' st1)
             else Done st1))"

definition loginUser :: "clock \<Rightarrow> user \<Rightarrow> appState \<Rightarrow> appState" where
  "loginUser now u st =
    showNotification (Welcome (user_name u))
      (updateStreak now
        (st\<lparr>currentUser := Some u,
            localStorage := (localStorage st)\<lparr>currentUserItem := Some (Json u)\<rparr>\<rparr>))"

definition logout :: "appState \<Rightarrow> appState" where
  "logout st =
    navigateToPage ''home''
      (st\<lparr>currentUser := None,
          localStorage := (localStorage st)\<lparr>currentUserItem := None\<rparr>\<rparr>)"

text \<open>
  \<open>loadUserData\<close> calls \<open>JSON.parse\<close> on the stored texts with no handler around it: a
  text that does not parse throws a \<open>SyntaxError\<close>. The text \<open>null\<close> parses to \<open>null\<close>, and
  reading \<open>AppState.currentUser.email\<close>, or \<open>data.progress\<close>, of it throws a \<open>TypeError\<close>.
  A stored progress of the program's shape has every field, so the spread over the
  default takes all of them from the stored value.
\<close>

definition loadUserData :: "clock \<Rightarrow> appState \<Rightarrow> result" where
  "loadUserData now st =
    (case currentUserItem (localStorage st) of
       None \<Rightarrow> Done st
     | Some Malformed \<Rightarrow> Thrown SyntaxError st
     | Some JsonNull \<Rightarrow> Thrown TypeError (st\<lparr>currentUser := None\<rparr>)
     | Some (Json u) \<Rightarrow>
         (let st1 = st\<lparr>currentUser := Some u\<rparr>
          in case map_of (userDataItems (localStorage st1)) (email u) of
               None \<Rightarrow> Done (updateStreak now st1)
             | Some Malformed \<Rightarrow> Thrown SyntaxError st1
             | Some JsonNull \<Rightarrow> Thrown TypeError st1
             | Some (Json data) \<Rightarrow>
                 Done (updateStreak now
                   (st1\<lparr>userProgress := data_progress data,
                        currentCourse := data_currentCourse data,
                        currentLesson := data_currentLesson data\<rparr>))))"

subsection \<open>Sequences of operations\<close>

text \<open>
  The operations of a page session: the clicks on the controls the script wires or
  generates (a disabled button ignores its click), and direct calls of the functions
  behind them. Each runs at its own instant; an operation that throws leaves the state
  it had reached. A click on a control that is not in the page (a Submit button when
  no form is shown) does nothing. Whether a closed modal hides its controls is decided
  by the style sheet, which is not part of the sources, so clicks on them are not
  excluded: the sequences of the page are among those of the model.
\<close>

datatype operation =
    StartCourse string
  | ClickLesson nat
  | ClickPrevious
  | ClickNext
  | PreviousLesson
  | NextLesson
  | ProceedToNextLesson
  | LoadLesson nat
  | ClickOption nat
  | SubmitQuiz nat
  | ClickSubmit
  | ClickResultsButton
  | HideQuizModal
  | MarkLessonCompleted string nat
  | CompleteCourse
  | CheckAndAwardBadge string
  | UpdateStreak
  | UpdateLevel
  | SaveUserData
  | LoginUser user
  | Logout

fun step :: "catalog \<Rightarrow> clock \<Rightarrow> operation \<Rightarrow> appState \<Rightarrow> appState" where
  "step courses now (StartCourse courseId) st = stateOf (startCourse courses courseId st)"
| "step courses now (ClickLesson index) st =
    (case courses (keyOf (currentCourse st)) of
       None \<Rightarrow> st
     | Some course \<Rightarrow>
         if index < length (lessons course)
         then stateOf (loadLesson courses index (st\<lparr>currentLesson := index\<rparr>))
         else st)"
| "step courses now ClickPrevious st =
    (if prevDisabled st then st else stateOf (previousLesson courses st))"
| "step courses now ClickNext st =
    (if nextDisabled st then st else stateOf (nextLesson courses now st))"
| "step courses now PreviousLesson st = stateOf (previousLesson courses st)"
| "step courses now NextLesson st = stateOf (nextLesson courses now st)"
| "step courses now ProceedToNextLesson st = stateOf (proceedToNextLesson courses now st)"
| "step courses now (LoadLesson index) st = stateOf (loadLesson courses index st)"
| "step courses now (ClickOption index) st =
    (case quizContent st of
       QuizForm sel n c \<Rightarrow> if index < n then st\<lparr>quizContent := QuizForm (Some index) n c\<rparr> else st
     | NoQuiz \<Rightarrow> st
     | QuizResults r \<Rightarrow> st)"
| "step courses now (SubmitQuiz correctAnswer) st = submitQuiz correctAnswer st"
| "step courses now ClickSubmit st =
    (case quizContent st of
       QuizForm sel n c \<Rightarrow> submitQuiz c st
     | NoQuiz \<Rightarrow> st
     | QuizResults r \<Rightarrow> st)"
| "step courses now ClickResultsButton st =
    (case quizContent st of
       QuizResults isCorrect \<Rightarrow>
         if isCorrect then stateOf (proceedToNextLesson courses now (hideQuizModal st))
         else stateOf (loadLesson courses (currentLesson st) (hideQuizModal st))
     | NoQuiz \<Rightarrow> st
     | QuizForm sel n c \<Rightarrow> st)"
| "step courses now HideQuizModal st = hideQuizModal st"
| "step courses now (MarkLessonCompleted courseId index) st =
    markLessonCompleted now courseId index st"
| "step courses now CompleteCourse st = completeCourse (currentCourse st) st"
| "step courses now (CheckAndAwardBadge badgeId) st = checkAndAwardBadge badgeId st"
| "step courses now UpdateStreak st = updateStreak now st"
| "step courses now UpdateLevel st = updateLevel st"
| "step courses now SaveUserData st = saveUserData st"
| "step courses now (LoginUser u) st = loginUser now u st"
| "step courses now Logout st = logout st"

fun run :: "catalog \<Rightarrow> (clock \<times> operation) list \<Rightarrow> appState \<Rightarrow> appState" where
  "run courses [] st = st"
| "run courses ((now, op) # rest) st = run courses rest (step courses now op st)"

text \<open>
  A page load evaluates the script afresh over the stored items and calls
  \<open>loadUserData\<close>; a browsing history is a sequence of operations and page loads.
\<close>

definition pageLoad :: "clock \<Rightarrow> storage \<Rightarrow> appState" where
  "pageLoad now ls = stateOf (loadUserData now (AppState ls))"

datatype session_event = Operation operation | Reload

fun sessionStep :: "catalog \<Rightarrow> clock \<Rightarrow> session_event \<Rightarrow> appState \<Rightarrow> appState" where
  "sessionStep courses now (Operation op) st = step courses now op st"
| "sessionStep courses now Reload st = pageLoad now (localStorage st)"

fun session :: "catalog \<Rightarrow> (clock \<times> session_event) list \<Rightarrow> appState \<Rightarrow> appState" where
  "session courses [] st = st"
| "session courses ((now, ev) # rest) st = session courses rest (sessionStep courses now ev st)"

section \<open>Climate Guardian (the climate dashboard script)\<close>

text \<open>
  \<open>userData\<close>, \<open>currentQuiz\<close>, the option elements of the quiz, the pending auto-advance
  timers, the badge notifications shown and the four stored items. A badge is an icon
  and a name.
\<close>

record climateUserData =
  cg_streak :: int
  cg_badges :: "(string \<times> string) list"
  lastVisit :: "date option"
  quizScore :: int

record quizSession =
  questionIndex :: nat
  score :: int
  answered :: bool

record optionEl =
  cls_correct :: bool
  cls_incorrect :: bool
  pointerEvents :: bool

record climateStorage =
  item_climateStreak :: "int option"
  item_climateBadges :: "(string \<times> string) list option"
  item_lastVisit :: "date option"
  item_quizScore :: "int option"

record climateState =
  userData :: climateUserData
  currentQuiz :: quizSession
  quizOptions :: "optionEl list"
  timers :: nat
  badgeNotifications :: "(string \<times> string) list"
  climateItems :: climateStorage

datatype climateResult = Finished climateState | Failed js_error climateState

definition showBadgeNotification_cg :: "string \<Rightarrow> string \<Rightarrow> climateState \<Rightarrow> climateState" where
  "showBadgeNotification_cg icon name cs =
    cs\<lparr>badgeNotifications := badgeNotifications cs @ [(icon, name)]\<rparr>"

definition awardBadge :: "string \<Rightarrow> string \<Rightarrow> climateState \<Rightarrow> climateState" where
  "awardBadge icon name cs =
    (case find (\<lambda>b. snd b = name) (cg_badges (userData cs)) of
       None \<Rightarrow>
         (let cs1 = cs\<lparr>userData := (userData cs)
                        \<lparr>cg_badges := cg_badges (userData cs) @ [(icon, name)]\<rparr>\<rparr>;
              cs2 = cs1\<lparr>climateItems := (climateItems cs1)
                        \<lparr>item_climateBadges := Some (cg_badges (userData cs1))\<rparr>\<rparr>
          in showBadgeNotification_cg icon name cs2)
     | Some existingBadge \<Rightarrow> cs)"

text \<open>The two streak badges' icons are the UTF-8 bytes of the glyphs in the source.\<close>

definition icon_calendar :: string where
  "icon_calendar = [CHR 0xF0, CHR 0x9F, CHR 0x93, CHR 0x85]"

definition icon_star :: string where
  "icon_star = [CHR 0xF0, CHR 0x9F, CHR 0x8C, CHR 0x9F]"

definition checkDailyVisit :: "clock \<Rightarrow> climateState \<Rightarrow> climateState" where
  "checkDailyVisit now cs =
    (let today = localDate now;
         lastVisit0 = lastVisit (userData cs)
     in if lastVisit0 \<noteq> Some today then
          (let yesterday = today - 1;
               cs1 = (if lastVisit0 = Some yesterday
                      then cs\<lparr>userData := (userData cs)\<lparr>cg_streak := cg_streak (userData cs) + 1\<rparr>\<rparr>
                      else cs\<lparr>userData := (userData cs)\<lparr>cg_streak := 1\<rparr>\<rparr>);
               cs2 = cs1\<lparr>userData := (userData cs1)\<lparr>lastVisit := Some today\<rparr>\<rparr>;
               cs3 = cs2\<lparr>climateItems := (climateItems cs2)
                        \<lparr>item_climateStreak := Some (cg_streak (userData cs2)),
                         item_lastVisit := Some today\<rparr>\<rparr>
           in if cg_streak (userData cs3) = 7 then awardBadge icon_calendar ''Week Warrior'' cs3
              else if cg_streak (userData cs3) = 30 then awardBadge icon_star ''Monthly Master'' cs3
              else cs3)
        else cs)"

text \<open>
  \<open>selectAnswer\<close>: the first statement is the guard on \<open>currentQuiz.answered\<close>. Past the
  end of the question table \<open>question\<close> is undefined and reading \<open>question.correct\<close>
  throws, after \<open>answered\<close> has been set. Otherwise every option element is marked and
  locked, the score counts a right answer and the auto-advance timer is scheduled.
\<close>

definition markOption :: "nat \<Rightarrow> nat \<Rightarrow> nat \<Rightarrow> optionEl \<Rightarrow> optionEl" where
  "markOption correctIndex selectedIndex index el =
    (if index = correctIndex then el\<lparr>cls_correct := True\<rparr>
     else if index = selectedIndex then el\<lparr>cls_incorrect := True\<rparr>
     else el)\<lparr>pointerEvents := False\<rparr>"

definition selectAnswer :: "quizData list \<Rightarrow> nat \<Rightarrow> climateState \<Rightarrow> climateResult" where
  "selectAnswer quizQuestions selectedIndex cs =
    (if answered (currentQuiz cs) then Finished cs
     else
       (let cs1 = cs\<lparr>currentQuiz := (currentQuiz cs)\<lparr>answered := True\<rparr>\<rparr>
        in if questionIndex (currentQuiz cs1) < length quizQuestions then
             (let question = quizQuestions ! questionIndex (currentQuiz cs1);
                  cs2 = cs1\<lparr>quizOptions :=
                          map (\<lambda>(index, el). markOption (correct question) selectedIndex index el)
                            (enumerate 0 (quizOptions cs1))\<rparr>;
                  cs3 = (if selectedIndex = correct question
                         then cs2\<lparr>currentQuiz := (currentQuiz cs2)
                                   \<lparr>score := score (currentQuiz cs2) + 1\<rparr>\<rparr>
                         else cs2)
              in Finished (cs3\<lparr>timers := timers cs3 + 1\<rparr>))
           else Failed TypeError cs1))"

definition freshOption :: optionEl where
  "freshOption = \<lparr>cls_correct = False, cls_incorrect = False, pointerEvents = True\<rparr>"

definition icon_brain :: string where
  "icon_brain = [CHR 0xF0, CHR 0x9F, CHR 0xA7, CHR 0xA0]"

definition icon_trophy :: string where
  "icon_trophy = [CHR 0xF0, CHR 0x9F, CHR 0x8F, CHR 0x86]"

definition finishQuiz :: "climateState \<Rightarrow> climateState" where
  "finishQuiz cs =
    (let cs1 = cs\<lparr>quizOptions := [],
                  userData := (userData cs)
                    \<lparr>quizScore := max (quizScore (userData cs)) (score (currentQuiz cs))\<rparr>\<rparr>;
         cs2 = cs1\<lparr>climateItems := (climateItems cs1)
                  \<lparr>item_quizScore := Some (quizScore (userData cs1))\<rparr>\<rparr>;
         cs3 = (if score (currentQuiz cs2) \<ge> 7
                then awardBadge icon_brain ''Climate Expert'' cs2 else cs2)
     in if score (currentQuiz cs3) = 10
        then awardBadge icon_trophy ''Perfect Score'' cs3 else cs3)"

definition showQuestion :: "quizData list \<Rightarrow> climateState \<Rightarrow> climateState" where
  "showQuestion quizQuestions cs =
    (if questionIndex (currentQuiz cs) \<ge> length quizQuestions then finishQuiz cs
     else
       (let question = quizQuestions ! questionIndex (currentQuiz cs)
        in cs\<lparr>quizOptions := replicate (length (options question)) freshOption,
              currentQuiz := (currentQuiz cs)\<lparr>answered := False\<rparr>\<rparr>))"

text \<open>The callback of the timer \<open>selectAnswer\<close> schedules, run when the timer fires.\<close>

definition autoAdvance :: "quizData list \<Rightarrow> climateState \<Rightarrow> climateState" where
  "autoAdvance quizQuestions cs =
    (let cs1 = cs\<lparr>timers := timers cs - 1,
                  currentQuiz := (currentQuiz cs)
                    \<lparr>questionIndex := questionIndex (currentQuiz cs) + 1\<rparr>\<rparr>
     in if questionIndex (currentQuiz cs1) < length quizQuestions
        then showQuestion quizQuestions cs1
        else finishQuiz cs1)"

definition startQuiz :: "quizData list \<Rightarrow> climateState \<Rightarrow> climateState" where
  "startQuiz quizQuestions cs =
    showQuestion quizQuestions
      (cs\<lparr>currentQuiz := \<lparr>questionIndex = 0, score = 0, answered = False\<rparr>\<rparr>)"

text \<open>
  The question table: the option texts are transliterated to ASCII, the indices of the
  right options are those of the source.
\<close>

definition quizQuestions :: "quizData list" where
  "quizQuestions =
    [\<lparr>options = [''350 ppm'', ''420 ppm'', ''500 ppm'', ''380 ppm''], correct = 1\<rparr>,
     \<lparr>options = [''0.5 C'', ''1.1 C'', ''2.0 C'', ''0.8 C''], correct = 1\<rparr>,
     \<lparr>options = [''Hubble'', ''MODIS'', ''Curiosity'', ''Voyager''], correct = 1\<rparr>,
     \<lparr>options = [''75%'', ''85%'', ''97%'', ''90%''], correct = 2\<rparr>,
     \<lparr>options = [''10 cm'', ''23 cm'', ''35 cm'', ''15 cm''], correct = 1\<rparr>,
     \<lparr>options = [''Methane'', ''Carbon Dioxide'', ''Nitrous Oxide'', ''Fluorocarbons''],
      correct = 1\<rparr>,
     \<lparr>options = [''Natural cycles'', ''Solar activity'', ''Global warming'', ''Ocean currents''],
      correct = 2\<rparr>,
     \<lparr>options = [''Every hour'', ''Every 2 hours'', ''Daily'', ''Weekly''], correct = 1\<rparr>,
     \<lparr>options = [''1.0 C'', ''1.5 C'', ''2.0 C'', ''2.5 C''], correct = 1\<rparr>,
     \<lparr>options = [''Transportation'', ''Energy'', ''Agriculture'', ''Industry''], correct = 1\<rparr>]"

section \<open>Invariants\<close>

text \<open>
  A progress record is well formed when the stored level is the level computed from the
  stored XP, the XP is not negative, and neither the badge list nor any list of
  completed lessons has a duplicate. \<open>levelBehind\<close> is the same with a stored level that
  may be below the computed one, as it is between an XP gain and the \<open>updateLevel\<close> call
  that follows it. The stored items are in order when every stored progress that parses
  is well formed; a state is consistent when its progress is well formed and its stored
  items are in order.
\<close>

definition wellFormed :: "user_progress \<Rightarrow> bool" where
  "wellFormed p \<longleftrightarrow>
     level p = newLevel (xp p) \<and> 0 \<le> xp p \<and> distinct (badges p) \<and>
     list_all (\<lambda>(courseId, done). distinct done) (completedLessons p)"

definition levelBehind :: "user_progress \<Rightarrow> bool" where
  "levelBehind p \<longleftrightarrow>
     level p \<le> newLevel (xp p) \<and> 0 \<le> xp p \<and> distinct (badges p) \<and>
     list_all (\<lambda>(courseId, done). distinct done) (completedLessons p)"

definition storedOK :: "storage \<Rightarrow> bool" where
  "storedOK ls \<longleftrightarrow>
     list_all (\<lambda>(key, it). case it of Malformed \<Rightarrow> True | JsonNull \<Rightarrow> True
                                  | Json d \<Rightarrow> wellFormed (data_progress d))
       (userDataItems ls)"

definition consistent :: "appState \<Rightarrow> bool" where
  "consistent st \<longleftrightarrow> wellFormed (userProgress st) \<and> storedOK (localStorage st)"

text \<open>
  \<open>grows st st'\<close>: from \<open>st\<close> to \<open>st'\<close> the XP has not decreased, and no badge and no
  completed lesson index of any course has been lost.
\<close>

definition grows :: "appState \<Rightarrow> appState \<Rightarrow> bool" where
  "grows st st' \<longleftrightarrow>
     xp (userProgress st) \<le> xp (userProgress st') \<and>
     set (badges (userProgress st)) \<subseteq> set (badges (userProgress st')) \<and>
     (\<forall>courseId. set (completedOf courseId (userProgress st)) \<subseteq>
        set (completedOf courseId (userProgress st')))"

section \<open>Concrete states for the examples\<close>


definition streakState :: appState where
  "streakState =
    (AppState emptyStorage)\<lparr>userProgress := defaultProgress\<lparr>streak := 5, lastLoginDate := Some 19723\<rparr>\<rparr>"

definition climateStreakState :: climateState where
  "climateStreakState =
    \<lparr>userData = \<lparr>cg_streak = 5, cg_badges = [], lastVisit = Some 19723, quizScore = 0\<rparr>,
     currentQuiz = \<lparr>questionIndex = 0, score = 0, answered = False\<rparr>,
     quizOptions = [], timers = 0, badgeNotifications = [],
     climateItems = \<lparr>item_climateStreak = Some 5, item_climateBadges = None,
                     item_lastVisit = Some 19723, item_quizScore = None\<rparr>\<rparr>"

text \<open>
  A zone whose daylight saving ends at 2024-10-27 01:00 UTC (offset two hours before,
  one hour from then on), and 23:30 local time of that day, which is 22:30 UTC.
\<close>

definition dstEndZone :: "int \<Rightarrow> int" where
  "dstEndZone t = (if t < 1729990800000 then 7200000 else 3600000)"

definition dstEndEvening :: clock where
  "dstEndEvening = \<lparr>instant = 1730068200000, zone = dstEndZone\<rparr>"

definition dstStreakState :: appState where
  "dstStreakState =
    (AppState emptyStorage)\<lparr>userProgress := defaultProgress\<lparr>streak := 5, lastLoginDate := Some 20022\<rparr>\<rparr>"

definition dstClimateState :: climateState where
  "dstClimateState =
    \<lparr>userData = \<lparr>cg_streak = 5, cg_badges = [], lastVisit = Some 20022, quizScore = 0\<rparr>,
     currentQuiz = \<lparr>questionIndex = 0, score = 0, answered = False\<rparr>,
     quizOptions = [], timers = 0, badgeNotifications = [],
     climateItems = \<lparr>item_climateStreak = Some 5, item_climateBadges = None,
                     item_lastVisit = Some 20022, item_quizScore = None\<rparr>\<rparr>"

definition emptyClimateState :: climateState where
  "emptyClimateState =
    \<lparr>userData = \<lparr>cg_streak = 0, cg_badges = [], lastVisit = None, quizScore = 0\<rparr>,
     currentQuiz = \<lparr>questionIndex = 0, score = 0, answered = False\<rparr>,
     quizOptions = [], timers = 0, badgeNotifications = [],
     climateItems = \<lparr>item_climateStreak = None, item_climateBadges = None,
                     item_lastVisit = None, item_quizScore = None\<rparr>\<rparr>"

definition completeSatellites :: "(clock \<times> operation) list" where
  "completeSatellites =
    [(utc 0, StartCourse ''satellites''), (utc 0, ProceedToNextLesson), (utc 0, ProceedToNextLesson)]"

definition startedProgress :: user_progress where
  "startedProgress =
    \<lparr>completedLessons = [], streak = 0, level = 1, xp = 0,
     lastLoginDate = None, badges = [''first_lesson'']\<rparr>"

definition startedState :: appState where
  "startedState =
    \<lparr>currentUser = None, currentPage = ''courses'',
     currentCourse = Some ''satellites'', currentLesson = 0,
     userProgress = startedProgress, localStorage = emptyStorage,
     notifications = [BadgeEarned ''First Steps'' ''Complete your first lesson''],
     alerts = [], quizContent = NoQuiz, quizModal = False, certificateModal = False,
     prevDisabled = True, nextDisabled = False\<rparr>"

definition lesson0Progress :: user_progress where
  "lesson0Progress =
    \<lparr>completedLessons = [(''satellites'', [0])], streak = 1, level = 1,
     xp = 25, lastLoginDate = Some 0, badges = [''first_lesson'']\<rparr>"

definition lesson0State :: appState where
  "lesson0State =
     startedState\<lparr>userProgress := lesson0Progress, currentLesson := 1,
                  prevDisabled := False, nextDisabled := True\<rparr>"

definition lesson1Progress :: user_progress where
  "lesson1Progress =
    \<lparr>completedLessons = [(''satellites'', [0, 1])], streak = 1, level = 1,
     xp = 50, lastLoginDate = Some 0, badges = [''first_lesson'']\<rparr>"

definition answeredForm :: appState where
  "answeredForm = (AppState emptyStorage)\<lparr>quizContent := QuizForm (Some 2) 4 2\<rparr>"

definition quizLift :: quizData where
  "quizLift = \<lparr>options = [''Thrust'', ''Drag'', ''Lift'', ''Pressure''], correct = 2\<rparr>"

definition quizPlanets :: quizData where
  "quizPlanets = \<lparr>options = [''7'', ''8'', ''9'', ''10''], correct = 1\<rparr>"

definition explorer :: user where
  "explorer = \<lparr>user_name = ''Space Explorer'', email = ''explorer@spaceed.com'',
               password = ''google_auth''\<rparr>"

definition userOnlyStorage :: storage where
  "userOnlyStorage = emptyStorage\<lparr>currentUserItem := Some (Json explorer)\<rparr>"

definition malformedStorage :: storage where
  "malformedStorage =
     userOnlyStorage\<lparr>userDataItems := [(''explorer@spaceed.com'', Malformed)]\<rparr>"

definition nullStorage :: storage where
  "nullStorage =
     userOnlyStorage\<lparr>userDataItems := [(''explorer@spaceed.com'', JsonNull)]\<rparr>"

definition savedStorage :: storage where
  "savedStorage =
     userOnlyStorage\<lparr>userDataItems :=
       [(''explorer@spaceed.com'',
         Json \<lparr>data_progress = lesson0Progress, data_currentCourse = Some ''satellites'',
               data_currentLesson = 1\<rparr>)]\<rparr>"


section \<open>Properties\<close>

subsection \<open>What each function leaves unchanged\<close>

lemma newLevel_div: "newLevel x = x div 100 + 1"
  unfolding newLevel_def
  by (metis floor_divide_of_int_eq of_int_numeral)

lemma newLevel_mono: "x \<le> y \<Longrightarrow> newLevel x \<le> newLevel y"
  by (simp add: newLevel_div zdiv_mono1)

lemma saveUserData_fields [simp]:
  "userProgress (saveUserData st) = userProgress st"
  "currentUser (saveUserData st) = currentUser st"
  "currentCourse (saveUserData st) = currentCourse st"
  "currentLesson (saveUserData st) = currentLesson st"
  "currentPage (saveUserData st) = currentPage st"
  "notifications (saveUserData st) = notifications st"
  "alerts (saveUserData st) = alerts st"
  "quizContent (saveUserData st) = quizContent st"
  "quizModal (saveUserData st) = quizModal st"
  "certificateModal (saveUserData st) = certificateModal st"
  by (simp_all add: saveUserData_def split: option.splits)

lemma showBadgeNotification_fields [simp]:
  "userProgress (showBadgeNotification b st) = userProgress st"
  "currentUser (showBadgeNotification b st) = currentUser st"
  "currentCourse (showBadgeNotification b st) = currentCourse st"
  "currentLesson (showBadgeNotification b st) = currentLesson st"
  "currentPage (showBadgeNotification b st) = currentPage st"
  "localStorage (showBadgeNotification b st) = localStorage st"
  "alerts (showBadgeNotification b st) = alerts st"
  "quizContent (showBadgeNotification b st) = quizContent st"
  "quizModal (showBadgeNotification b st) = quizModal st"
  "certificateModal (showBadgeNotification b st) = certificateModal st"
  by (simp_all add: showBadgeNotification_def showNotification_def split: option.splits)

lemma checkAndAwardBadge_fields [simp]:
  "currentUser (checkAndAwardBadge b st) = currentUser st"
  "currentCourse (checkAndAwardBadge b st) = currentCourse st"
  "currentLesson (checkAndAwardBadge b st) = currentLesson st"
  "currentPage (checkAndAwardBadge b st) = currentPage st"
  "alerts (checkAndAwardBadge b st) = alerts st"
  "quizContent (checkAndAwardBadge b st) = quizContent st"
  "quizModal (checkAndAwardBadge b st) = quizModal st"
  "certificateModal (checkAndAwardBadge b st) = certificateModal st"
  by (simp_all add: checkAndAwardBadge_def)

lemma checkAndAwardBadge_progress:
  "userProgress (checkAndAwardBadge b st) =
     (userProgress st)\<lparr>badges := (if b \<in> set (badges (userProgress st))
        then badges (userProgress st) else badges (userProgress st) @ [b])\<rparr>"
  by (simp add: checkAndAwardBadge_def)

lemma checkAndAwardBadge_progress_fields [simp]:
  "xp (userProgress (checkAndAwardBadge b st)) = xp (userProgress st)"
  "level (userProgress (checkAndAwardBadge b st)) = level (userProgress st)"
  "streak (userProgress (checkAndAwardBadge b st)) = streak (userProgress st)"
  "lastLoginDate (userProgress (checkAndAwardBadge b st)) = lastLoginDate (userProgress st)"
  "completedLessons (userProgress (checkAndAwardBadge b st)) = completedLessons (userProgress st)"
  "set (badges (userProgress (checkAndAwardBadge b st))) = insert b (set (badges (userProgress st)))"
  by (auto simp add: checkAndAwardBadge_progress)

lemma updateLevel_fields [simp]:
  "currentUser (updateLevel st) = currentUser st"
  "currentCourse (updateLevel st) = currentCourse st"
  "currentLesson (updateLevel st) = currentLesson st"
  "currentPage (updateLevel st) = currentPage st"
  "localStorage (updateLevel st) = localStorage st"
  "alerts (updateLevel st) = alerts st"
  "quizContent (updateLevel st) = quizContent st"
  "quizModal (updateLevel st) = quizModal st"
  "certificateModal (updateLevel st) = certificateModal st"
  by (simp_all add: updateLevel_def showNotification_def)

lemma updateLevel_progress:
  "userProgress (updateLevel st) =
     (userProgress st)\<lparr>level := max (level (userProgress st)) (newLevel (xp (userProgress st)))\<rparr>"
  by (simp add: updateLevel_def showNotification_def max_def)

lemma updateLevel_progress_fields [simp]:
  "xp (userProgress (updateLevel st)) = xp (userProgress st)"
  "level (userProgress (updateLevel st)) = max (level (userProgress st)) (newLevel (xp (userProgress st)))"
  "streak (userProgress (updateLevel st)) = streak (userProgress st)"
  "lastLoginDate (userProgress (updateLevel st)) = lastLoginDate (userProgress st)"
  "completedLessons (userProgress (updateLevel st)) = completedLessons (userProgress st)"
  "badges (userProgress (updateLevel st)) = badges (userProgress st)"
  by (simp_all add: updateLevel_progress)

lemma updateStreak_fields [simp]:
  "currentUser (updateStreak now st) = currentUser st"
  "currentCourse (updateStreak now st) = currentCourse st"
  "currentLesson (updateStreak now st) = currentLesson st"
  "currentPage (updateStreak now st) = currentPage st"
  "alerts (updateStreak now st) = alerts st"
  "quizContent (updateStreak now st) = quizContent st"
  "quizModal (updateStreak now st) = quizModal st"
  "certificateModal (updateStreak now st) = certificateModal st"
  by (simp_all add: updateStreak_def Let_def)

lemma updateStreak_progress_fields [simp]:
  "xp (userProgress (updateStreak now st)) = xp (userProgress st)"
  "level (userProgress (updateStreak now st)) = level (userProgress st)"
  "completedLessons (userProgress (updateStreak now st)) = completedLessons (userProgress st)"
  by (simp_all add: updateStreak_def Let_def)

lemma updateStreak_badges:
  "set (badges (userProgress st)) \<subseteq> set (badges (userProgress (updateStreak now st)))"
  by (auto simp add: updateStreak_def Let_def)

subsection \<open>Lesson completion and quiz submission\<close>

lemma submitQuiz_progress_xp:
  "checkedAnswer (quizContent st) = Some userAnswer \<Longrightarrow>
   xp (userProgress (submitQuiz correctAnswer st)) =
     xp (userProgress st) + (if userAnswer = correctAnswer then 10 else 0)"
  by (simp add: submitQuiz_def Let_def showQuizResults_def)

lemma submitQuiz_quizContent:
  "checkedAnswer (quizContent st) = Some userAnswer \<Longrightarrow>
   quizContent (submitQuiz correctAnswer st) = QuizResults (userAnswer = correctAnswer)"
  by (simp add: submitQuiz_def Let_def showQuizResults_def)

lemma submitQuiz_rejected:
  "checkedAnswer (quizContent st) = None \<Longrightarrow>
   submitQuiz correctAnswer st =
     st\<lparr>alerts := alerts st @ [''Please select an answer before submitting.'']\<rparr>"
  by (simp add: submitQuiz_def)

lemma selectAnswer_answered:
  "selectAnswer qs i cs = Finished cs' \<Longrightarrow> answered (currentQuiz cs')"
  by (auto simp add: selectAnswer_def Let_def split: if_splits)

lemma selectAnswer_answered_failed:
  "selectAnswer qs i cs = Failed e cs' \<Longrightarrow> answered (currentQuiz cs')"
  by (auto simp add: selectAnswer_def Let_def split: if_splits)

lemma selectAnswer_noop:
  "answered (currentQuiz cs) \<Longrightarrow> selectAnswer qs j cs = Finished cs"
  by (simp add: selectAnswer_def)

lemma completedOf_update:
  "completedOf c' (p\<lparr>completedLessons := AList.update c l (completedLessons p)\<rparr>) =
     (if c' = c then l else completedOf c' p)"
  by (simp add: completedOf_def update_conv')

lemma completedOf_simps [simp]:
  "completedOf c (p\<lparr>xp := x\<rparr>) = completedOf c p"
  "completedOf c (p\<lparr>level := lv\<rparr>) = completedOf c p"
  "completedOf c (p\<lparr>streak := s\<rparr>) = completedOf c p"
  "completedOf c (p\<lparr>lastLoginDate := d\<rparr>) = completedOf c p"
  "completedOf c (p\<lparr>badges := bs\<rparr>) = completedOf c p"
  by (simp_all add: completedOf_def)

lemma completedOf_cong:
  "completedLessons p = completedLessons q \<Longrightarrow> completedOf c p = completedOf c q"
  by (simp add: completedOf_def)

lemma completedOf_through [simp]:
  "completedOf c (userProgress (saveUserData st)) = completedOf c (userProgress st)"
  "completedOf c (userProgress (updateStreak now st)) = completedOf c (userProgress st)"
  "completedOf c (userProgress (updateLevel st)) = completedOf c (userProgress st)"
  "completedOf c (userProgress (checkAndAwardBadge b st)) = completedOf c (userProgress st)"
  by (simp_all add: completedOf_def)

lemma markLessonCompleted_present:
  "lessonIndex \<in> set (completedOf courseId (userProgress st)) \<Longrightarrow>
   markLessonCompleted now courseId lessonIndex st = st"
  by (auto simp add: markLessonCompleted_def Let_def completedOf_def split: option.splits)

lemma markLessonCompleted_fields [simp]:
  "currentUser (markLessonCompleted now c i st) = currentUser st"
  "currentCourse (markLessonCompleted now c i st) = currentCourse st"
  "currentLesson (markLessonCompleted now c i st) = currentLesson st"
  "currentPage (markLessonCompleted now c i st) = currentPage st"
  "alerts (markLessonCompleted now c i st) = alerts st"
  "quizContent (markLessonCompleted now c i st) = quizContent st"
  "quizModal (markLessonCompleted now c i st) = quizModal st"
  "certificateModal (markLessonCompleted now c i st) = certificateModal st"
  by (simp_all add: markLessonCompleted_def Let_def)

lemma markLessonCompleted_xp:
  "xp (userProgress (markLessonCompleted now c i st)) =
     xp (userProgress st) + (if i \<in> set (completedOf c (userProgress st)) then 0 else 25)"
  by (auto simp add: markLessonCompleted_def Let_def completedOf_def update_conv' split: option.splits)

lemma markLessonCompleted_completedOf:
  "completedOf c' (userProgress (markLessonCompleted now c i st)) =
     (if c' = c \<and> i \<notin> set (completedOf c (userProgress st))
      then completedOf c (userProgress st) @ [i]
      else completedOf c' (userProgress st))"
  by (auto simp add: markLessonCompleted_def Let_def completedOf_update)
     (auto simp add: completedOf_def update_conv' split: option.splits)

lemma updateStreak_badges_mem:
  "b \<in> set (badges (userProgress st)) \<Longrightarrow> b \<in> set (badges (userProgress (updateStreak now st)))"
  using updateStreak_badges by blast

lemma markLessonCompleted_badges:
  "set (badges (userProgress st)) \<subseteq> set (badges (userProgress (markLessonCompleted now c i st)))"
  by (auto simp add: markLessonCompleted_def Let_def intro!: updateStreak_badges_mem)

lemma completeCourse_fields [simp]:
  "currentUser (completeCourse c st) = currentUser st"
  "currentCourse (completeCourse c st) = currentCourse st"
  "currentLesson (completeCourse c st) = currentLesson st"
  "currentPage (completeCourse c st) = currentPage st"
  "alerts (completeCourse c st) = alerts st"
  "quizContent (completeCourse c st) = quizContent st"
  "quizModal (completeCourse c st) = quizModal st"
  "certificateModal (completeCourse c st) = True"
  by (simp_all add: completeCourse_def Let_def showCertificateModal_def)

lemma completeCourse_progress [simp]:
  "xp (userProgress (completeCourse c st)) = xp (userProgress st) + 100"
  "completedLessons (userProgress (completeCourse c st)) = completedLessons (userProgress st)"
  "set (badges (userProgress (completeCourse c st))) =
     insert ''course_complete'' (set (badges (userProgress st)))"
  "streak (userProgress (completeCourse c st)) = streak (userProgress st)"
  "lastLoginDate (userProgress (completeCourse c st)) = lastLoginDate (userProgress st)"
  by (simp_all add: completeCourse_def Let_def showCertificateModal_def)

lemma completedOf_completeCourse [simp]:
  "completedOf k (userProgress (completeCourse c st)) = completedOf k (userProgress st)"
  by (simp add: completedOf_def)

lemma markLessonCompleted_completedLessons_present:
  "i \<in> set (completedOf c (userProgress st)) \<Longrightarrow>
   completedLessons (userProgress (markLessonCompleted now c i st)) = completedLessons (userProgress st)"
  by (simp add: markLessonCompleted_present)

lemma loadLesson_Done:
  "courses (keyOf (currentCourse st)) = Some course \<Longrightarrow>
   loadLesson courses i st =
     Done (if i < length (lessons course)
           then checkAndAwardBadge ''first_lesson''
                  (st\<lparr>prevDisabled := (i = 0),
                      nextDisabled := (int i \<ge> int (length (lessons course)) - 1)\<rparr>)
           else st)"
  by (simp add: loadLesson_def)

subsection \<open>Quiz reward\<close>

text \<open>
  C10. In the SpaceEd quiz a first submission with the right option checked adds exactly
  10 to \<open>xp\<close>, and a submission with a wrong option checked leaves \<open>xp\<close> unchanged; the
  same holds when the submission comes from the form's Submit button.
\<close>

theorem submitQuiz_xp_reward:
  assumes "quizContent st = QuizForm (Some userAnswer) n correctAnswer"
  shows "(userAnswer = correctAnswer \<longrightarrow>
            xp (userProgress (submitQuiz correctAnswer st)) = xp (userProgress st) + 10) \<and>
         (userAnswer \<noteq> correctAnswer \<longrightarrow>
            xp (userProgress (submitQuiz correctAnswer st)) = xp (userProgress st)) \<and>
         step courses now ClickSubmit st = submitQuiz correctAnswer st"
  using assms by (simp add: submitQuiz_progress_xp)

theorem submitQuiz_xp_reward_witness:
  "quizContent ((AppState emptyStorage)\<lparr>quizContent := QuizForm (Some 1) 4 1\<rparr>) =
     QuizForm (Some 1) 4 1 \<and>
   xp (userProgress (submitQuiz 1 ((AppState emptyStorage)\<lparr>quizContent := QuizForm (Some 1) 4 1\<rparr>))) = 10 \<and>
   quizContent ((AppState emptyStorage)\<lparr>quizContent := QuizForm (Some 0) 4 1\<rparr>) =
     QuizForm (Some 0) 4 1 \<and>
   xp (userProgress (submitQuiz 1 ((AppState emptyStorage)\<lparr>quizContent := QuizForm (Some 0) 4 1\<rparr>))) = 0"
  using submitQuiz_xp_reward [of "(AppState emptyStorage)\<lparr>quizContent := QuizForm (Some 1) 4 1\<rparr>" 1 4 1]
        submitQuiz_xp_reward [of "(AppState emptyStorage)\<lparr>quizContent := QuizForm (Some 0) 4 1\<rparr>" 0 4 1]
  by (simp add: AppState_def defaultProgress_def)

subsection \<open>Advancing through a course\<close>



subsection \<open>Streak update\<close>

lemma updateStreak_same_day:
  "lastLoginDate (userProgress st) = Some (localDate now) \<Longrightarrow> updateStreak now st = st"
  by (simp add: updateStreak_def)

lemma updateStreak_lastLoginDate:
  "lastLoginDate (userProgress (updateStreak now st)) = Some (localDate now)"
  by (simp add: updateStreak_def Let_def)

text \<open>
  The streak after \<open>updateStreak\<close>: the day that counts as yesterday is the local day of
  the instant 24 hours before now.
\<close>

lemma updateStreak_streak:
  "streak (userProgress (updateStreak now st)) =
    (if lastLoginDate (userProgress st) = Some (localDate now) then streak (userProgress st)
     else if lastLoginDate (userProgress st) =
               Some (toDateString (zone now) (instant now - 86400000))
     then streak (userProgress st) + 1 else 1)"
  by (simp add: updateStreak_def Let_def)

lemma updateStreak_idem:
  "localDate later = localDate now \<Longrightarrow>
   updateStreak later (updateStreak now st) = updateStreak now st"
  using updateStreak_same_day [of "updateStreak now st" later]
  by (simp add: updateStreak_lastLoginDate)

text \<open>
  Where the zone's offset is the same now and 24 hours ago, that day is the day before
  today.
\<close>

lemma toDateString_yesterday:
  "zone now (instant now - 86400000) = zone now (instant now) \<Longrightarrow>
   toDateString (zone now) (instant now - 86400000) = localDate now - 1"
  by (simp add: toDateString_def localDate_def)

lemma checkDailyVisit_same_day:
  "lastVisit (userData cs) = Some (localDate now) \<Longrightarrow> checkDailyVisit now cs = cs"
  by (simp add: checkDailyVisit_def)

lemma awardBadge_userData [simp]:
  "cg_streak (userData (awardBadge icon name cs)) = cg_streak (userData cs)"
  "lastVisit (userData (awardBadge icon name cs)) = lastVisit (userData cs)"
  "quizScore (userData (awardBadge icon name cs)) = quizScore (userData cs)"
  "currentQuiz (awardBadge icon name cs) = currentQuiz cs"
  "quizOptions (awardBadge icon name cs) = quizOptions cs"
  "timers (awardBadge icon name cs) = timers cs"
  by (simp_all add: awardBadge_def Let_def showBadgeNotification_cg_def split: option.splits)

lemma checkDailyVisit_lastVisit:
  "lastVisit (userData (checkDailyVisit now cs)) = Some (localDate now)"
  by (simp add: checkDailyVisit_def Let_def)

lemma checkDailyVisit_streak:
  "cg_streak (userData (checkDailyVisit now cs)) =
    (if lastVisit (userData cs) = Some (localDate now) then cg_streak (userData cs)
     else if lastVisit (userData cs) = Some (localDate now - 1)
     then cg_streak (userData cs) + 1 else 1)"
  by (simp add: checkDailyVisit_def Let_def)

lemma checkDailyVisit_idem:
  "localDate later = localDate now \<Longrightarrow>
   checkDailyVisit later (checkDailyVisit now cs) = checkDailyVisit now cs"
  using checkDailyVisit_same_day [of "checkDailyVisit now cs" later]
  by (simp add: checkDailyVisit_lastVisit)

text \<open>
  The scenario of the specification in a zone without offset: 2024-01-01 is day 19723;
  an update at noon of 2024-01-02 takes a streak of 5 to 6, an update on 2024-01-05
  gives 1, and a second update on 2024-01-02 changes nothing.
\<close>

lemma streak_scenario:
  "localDate (utc 1704196800000) = 19724 \<and> localDate (utc 1704412800000) = 19727 \<and>
   streak (userProgress (updateStreak (utc 1704196800000) streakState)) = 6 \<and>
   lastLoginDate (userProgress (updateStreak (utc 1704196800000) streakState)) = Some 19724 \<and>
   updateStreak (utc 1704200000000) (updateStreak (utc 1704196800000) streakState) =
     updateStreak (utc 1704196800000) streakState \<and>
   streak (userProgress (updateStreak (utc 1704412800000) streakState)) = 1 \<and>
   cg_streak (userData (checkDailyVisit (utc 1704196800000) climateStreakState)) = 6 \<and>
   cg_streak (userData (checkDailyVisit (utc 1704412800000) climateStreakState)) = 1"
proof -
  have d: "localDate (utc 1704196800000) = 19724" "localDate (utc 1704412800000) = 19727"
          "localDate (utc 1704200000000) = 19724"
          "toDateString (zone (utc 1704196800000)) (instant (utc 1704196800000) - 86400000) = 19723"
          "toDateString (zone (utc 1704412800000)) (instant (utc 1704412800000) - 86400000) = 19726"
    by (simp_all add: localDate_def toDateString_def utc_def)
  have s: "lastLoginDate (userProgress streakState) = Some 19723"
          "streak (userProgress streakState) = 5"
          "lastVisit (userData climateStreakState) = Some 19723"
          "cg_streak (userData climateStreakState) = 5"
    by (simp_all add: streakState_def climateStreakState_def AppState_def defaultProgress_def)
  show ?thesis
    by (simp add: d s updateStreak_streak updateStreak_lastLoginDate updateStreak_idem
        checkDailyVisit_streak)
qed

text \<open>
  C4. On the day daylight saving ends the local day has 25 hours, and late in its
  evening the instant 24 hours earlier still lies in the same local day. In a zone
  whose offset falls from two hours to one at 2024-10-27 01:00 UTC, at 23:30 local time
  of that day (day 20023), with a streak of 5 and the stored date the day before (day
  20022): \<open>updateStreak\<close> takes today for yesterday, does not find the stored date equal
  to it and resets the streak to 1, where today is exactly one day after the stored
  date and the streak should become 6. \<open>checkDailyVisit\<close>, which steps the calendar date
  back by one, gives 6 at the same input.
\<close>

theorem updateStreak_resets_on_long_day:
  "localDate dstEndEvening = 20023 \<and>
   toDateString (zone dstEndEvening) (instant dstEndEvening - 24 * 60 * 60 * 1000) = 20023 \<and>
   lastLoginDate (userProgress dstStreakState) = Some (localDate dstEndEvening - 1) \<and>
   streak (userProgress dstStreakState) = 5 \<and>
   streak (userProgress (updateStreak dstEndEvening dstStreakState)) = 1 \<and>
   lastVisit (userData dstClimateState) = Some (localDate dstEndEvening - 1) \<and>
   cg_streak (userData dstClimateState) = 5 \<and>
   cg_streak (userData (checkDailyVisit dstEndEvening dstClimateState)) = 6"
proof -
  have d: "localDate dstEndEvening = 20023"
          "toDateString (zone dstEndEvening) (instant dstEndEvening - 86400000) = 20023"
    by (simp_all add: localDate_def toDateString_def dstEndEvening_def dstEndZone_def)
  have s: "lastLoginDate (userProgress dstStreakState) = Some 20022"
          "streak (userProgress dstStreakState) = 5"
          "lastVisit (userData dstClimateState) = Some 20022"
          "cg_streak (userData dstClimateState) = 5"
    by (simp_all add: dstStreakState_def dstClimateState_def AppState_def defaultProgress_def)
  show ?thesis
    by (simp add: d s updateStreak_streak checkDailyVisit_streak)
qed

subsection \<open>Badges are awarded once\<close>

lemma checkAndAwardBadge_held:
  "badgeId \<in> set (badges (userProgress st)) \<Longrightarrow> checkAndAwardBadge badgeId st = st"
  by (simp add: checkAndAwardBadge_def)

lemma checkAndAwardBadge_holds:
  "badgeId \<in> set (badges (userProgress (checkAndAwardBadge badgeId st)))"
  by simp

lemma checkAndAwardBadge_idem:
  "checkAndAwardBadge badgeId (checkAndAwardBadge badgeId st) = checkAndAwardBadge badgeId st"
  by (rule checkAndAwardBadge_held) simp

lemma checkAndAwardBadge_distinct:
  "distinct (badges (userProgress st)) \<Longrightarrow>
   distinct (badges (userProgress (checkAndAwardBadge badgeId st)))"
  by (simp add: checkAndAwardBadge_progress)

lemma checkAndAwardBadge_count:
  "count_list (badges (userProgress (checkAndAwardBadge badgeId st))) b =
     (if b = badgeId \<and> badgeId \<notin> set (badges (userProgress st)) then 1
      else count_list (badges (userProgress st)) b)"
  by (simp add: checkAndAwardBadge_progress count_list_0_iff)

lemma find_name_None: "find (\<lambda>b. snd b = name) bs = None \<longleftrightarrow> name \<notin> snd ` set bs"
  by (induction bs) auto

lemma awardBadge_held:
  "name \<in> snd ` set (cg_badges (userData cs)) \<Longrightarrow> awardBadge icon name cs = cs"
  using find_name_None [of name "cg_badges (userData cs)"]
  by (auto simp add: awardBadge_def split: option.splits)

lemma awardBadge_badges:
  "cg_badges (userData (awardBadge icon name cs)) =
     (if name \<in> snd ` set (cg_badges (userData cs)) then cg_badges (userData cs)
      else cg_badges (userData cs) @ [(icon, name)])"
  using find_name_None [of name "cg_badges (userData cs)"]
  by (auto simp add: awardBadge_def Let_def showBadgeNotification_cg_def split: option.splits)

lemma awardBadge_idem:
  "awardBadge icon' name (awardBadge icon name cs) = awardBadge icon name cs"
  by (rule awardBadge_held) (simp add: awardBadge_badges)

lemma awardBadge_distinct:
  "distinct (map snd (cg_badges (userData cs))) \<Longrightarrow>
   distinct (map snd (cg_badges (userData (awardBadge icon name cs))))"
  by (simp add: awardBadge_badges)

subsection \<open>Consistency of the progress record and of the stored progress\<close>

lemma list_all_update:
  "list_all P xs \<Longrightarrow> P (k, v) \<Longrightarrow> list_all P (AList.update k v xs)"
  by (induction xs) auto

lemma wellFormed_levelBehind: "wellFormed p \<Longrightarrow> levelBehind p"
  by (simp add: wellFormed_def levelBehind_def)

lemma wellFormed_default: "wellFormed defaultProgress"
  by (simp add: wellFormed_def defaultProgress_def newLevel_div)

lemma storedOK_lookup:
  "storedOK ls \<Longrightarrow> map_of (userDataItems ls) k = Some (Json d) \<Longrightarrow> wellFormed (data_progress d)"
  by (auto simp add: storedOK_def list_all_iff dest!: map_of_SomeD)

lemma consistent_saveUserData: "consistent st \<Longrightarrow> consistent (saveUserData st)"
  by (auto simp add: consistent_def saveUserData_def storedOK_def intro!: list_all_update
      split: option.splits)

lemma localStorage_showNotification [simp]:
  "localStorage (showNotification n st) = localStorage st"
  "userProgress (showNotification n st) = userProgress st"
  by (simp_all add: showNotification_def)

lemma consistent_checkAndAwardBadge:
  "consistent st \<Longrightarrow> consistent (checkAndAwardBadge b st)"
proof (cases "b \<in> set (badges (userProgress st))")
  case True
  assume "consistent st"
  then show ?thesis using True by (simp add: checkAndAwardBadge_held)
next
  case False
  assume c: "consistent st"
  let ?st1 = "showBadgeNotification b
     (st\<lparr>userProgress := (userProgress st)\<lparr>badges := badges (userProgress st) @ [b]\<rparr>\<rparr>)"
  have "consistent ?st1"
    using c False by (simp add: consistent_def wellFormed_def)
  then have "consistent (saveUserData ?st1)" by (rule consistent_saveUserData)
  then show ?thesis using False by (simp add: checkAndAwardBadge_def)
qed

lemma consistent_updateLevel:
  "levelBehind (userProgress st) \<Longrightarrow> storedOK (localStorage st) \<Longrightarrow> consistent (updateLevel st)"
  by (simp add: consistent_def wellFormed_def levelBehind_def updateLevel_progress max_def)

lemma consistent_updateLevel': "consistent st \<Longrightarrow> consistent (updateLevel st)"
  by (simp add: consistent_def consistent_updateLevel [unfolded consistent_def] wellFormed_levelBehind)

lemma consistent_progress_streak:
  "consistent st \<Longrightarrow> consistent (st\<lparr>userProgress := (userProgress st)\<lparr>streak := s\<rparr>\<rparr>)"
  "consistent st \<Longrightarrow> consistent (st\<lparr>userProgress := (userProgress st)\<lparr>lastLoginDate := d\<rparr>\<rparr>)"
  by (simp_all add: consistent_def wellFormed_def)

lemma consistent_updateStreak: "consistent st \<Longrightarrow> consistent (updateStreak now st)"
  by (simp add: updateStreak_def Let_def consistent_progress_streak consistent_checkAndAwardBadge)

lemma consistent_xp_gain:
  "consistent st \<Longrightarrow> 0 \<le> n \<Longrightarrow>
   consistent (updateLevel (st\<lparr>userProgress := (userProgress st)\<lparr>xp := xp (userProgress st) + n\<rparr>\<rparr>))"
proof -
  assume c: "consistent st" and n: "0 \<le> n"
  have "newLevel (xp (userProgress st)) \<le> newLevel (xp (userProgress st) + n)"
    using n by (intro newLevel_mono) simp
  then show ?thesis
    using c n by (intro consistent_updateLevel) (simp_all add: consistent_def wellFormed_def levelBehind_def)
qed

lemma distinct_completedOf:
  "list_all (\<lambda>(courseId, done). distinct done) (completedLessons p) \<Longrightarrow> distinct (completedOf c p)"
  by (auto simp add: completedOf_def list_all_iff split: option.splits dest!: map_of_SomeD)

lemma consistent_markLessonCompleted:
  assumes "consistent st"
  shows "consistent (markLessonCompleted now c i st)"
proof (cases "i \<in> set (completedOf c (userProgress st))")
  case True
  then show ?thesis using assms by (simp add: markLessonCompleted_present)
next
  case False
  let ?p = "userProgress st"
  let ?p1 = "(if map_of (completedLessons ?p) c = None
               then ?p\<lparr>completedLessons := AList.update c [] (completedLessons ?p)\<rparr> else ?p)"
  let ?st2 = "st\<lparr>userProgress := ?p1\<lparr>completedLessons :=
                 AList.update c (completedOf c ?p1 @ [i]) (completedLessons ?p1),
               xp := xp ?p1 + 25\<rparr>\<rparr>"
  have same: "completedOf c ?p1 = completedOf c ?p"
    by (simp add: completedOf_def update_conv')
  have wf: "wellFormed ?p" and so: "storedOK (localStorage st)"
    using assms by (simp_all add: consistent_def)
  have d: "distinct (completedOf c ?p @ [i])"
    using False wf by (simp add: wellFormed_def distinct_completedOf)
  have la: "list_all (\<lambda>(courseId, done). distinct done) (completedLessons ?p1)"
    using wf by (auto simp add: wellFormed_def intro!: list_all_update)
  have "newLevel (xp ?p) \<le> newLevel (xp ?p + 25)"
    by (intro newLevel_mono) simp
  then have lb: "levelBehind (userProgress ?st2)"
    using wf d la same
    by (auto simp add: levelBehind_def wellFormed_def intro!: list_all_update)
  have "consistent (updateLevel ?st2)"
    using lb so by (intro consistent_updateLevel) simp_all
  then have "consistent (saveUserData (updateStreak now (updateLevel ?st2)))"
    by (intro consistent_saveUserData consistent_updateStreak)
  then show ?thesis
    using False same by (simp add: markLessonCompleted_def Let_def)
qed

lemma consistent_showCertificateModal:
  "consistent st \<Longrightarrow> consistent (showCertificateModal c st)"
  by (simp add: consistent_def showCertificateModal_def)

lemma consistent_completeCourse: "consistent st \<Longrightarrow> consistent (completeCourse c st)"
  unfolding completeCourse_def Let_def
  by (intro consistent_saveUserData consistent_showCertificateModal consistent_xp_gain
      consistent_checkAndAwardBadge) simp_all

lemma consistent_dom_fields:
  "consistent st \<Longrightarrow> consistent (st\<lparr>quizContent := q\<rparr>)"
  "consistent st \<Longrightarrow> consistent (st\<lparr>quizModal := m\<rparr>)"
  "consistent st \<Longrightarrow> consistent (st\<lparr>alerts := a\<rparr>)"
  "consistent st \<Longrightarrow> consistent (st\<lparr>currentLesson := i\<rparr>)"
  "consistent st \<Longrightarrow> consistent (st\<lparr>currentCourse := c\<rparr>)"
  "consistent st \<Longrightarrow> consistent (st\<lparr>currentPage := pg\<rparr>)"
  "consistent st \<Longrightarrow> consistent (st\<lparr>currentUser := u\<rparr>)"
  "consistent st \<Longrightarrow> consistent (st\<lparr>notifications := ns\<rparr>)"
  "consistent st \<Longrightarrow> consistent (st\<lparr>prevDisabled := pd\<rparr>)"
  "consistent st \<Longrightarrow> consistent (st\<lparr>nextDisabled := nd\<rparr>)"
  "consistent st \<Longrightarrow> consistent (st\<lparr>localStorage := (localStorage st)\<lparr>currentUserItem := cu\<rparr>\<rparr>)"
  by (simp_all add: consistent_def storedOK_def)

lemma consistent_submitQuiz: "consistent st \<Longrightarrow> consistent (submitQuiz c st)"
proof (cases "checkedAnswer (quizContent st)")
  case None
  assume "consistent st"
  then show ?thesis using None by (simp add: submitQuiz_def consistent_dom_fields)
next
  case (Some a)
  assume c: "consistent st"
  have c1: "consistent (showQuizResults r st)" for r
    using c by (simp add: showQuizResults_def consistent_dom_fields)
  have c2: "consistent (saveUserData (checkAndAwardBadge ''quiz_master'' (updateLevel
          ((showQuizResults r st)\<lparr>userProgress := (userProgress (showQuizResults r st))
              \<lparr>xp := xp (userProgress (showQuizResults r st)) + 10\<rparr>\<rparr>))))" for r
    using c1 [of r]
    by (intro consistent_saveUserData consistent_checkAndAwardBadge consistent_xp_gain) simp_all
  show ?thesis
    using Some c1 c2 by (simp add: submitQuiz_def Let_def consistent_saveUserData)
qed

lemma consistent_loadLesson: "consistent st \<Longrightarrow> consistent (stateOf (loadLesson courses i st))"
  by (auto simp add: loadLesson_def split: option.splits
      intro!: consistent_checkAndAwardBadge consistent_dom_fields)

lemma consistent_previousLesson:
  "consistent st \<Longrightarrow> consistent (stateOf (previousLesson courses st))"
  by (auto simp add: previousLesson_def intro!: consistent_loadLesson consistent_dom_fields)

lemma consistent_proceedToNextLesson:
  "consistent st \<Longrightarrow> consistent (stateOf (proceedToNextLesson courses now st))"
  unfolding proceedToNextLesson_def Let_def
  by (auto split: option.splits
      intro!: consistent_loadLesson consistent_dom_fields consistent_completeCourse
        consistent_markLessonCompleted)

lemma consistent_nextLesson:
  "consistent st \<Longrightarrow> consistent (stateOf (nextLesson courses now st))"
  unfolding nextLesson_def showQuiz_def
  by (auto simp add: consistent_def split: option.splits
      intro!: consistent_proceedToNextLesson [unfolded consistent_def, THEN conjunct1]
              consistent_proceedToNextLesson [unfolded consistent_def, THEN conjunct2])

lemma consistent_startCourse:
  "consistent st \<Longrightarrow> consistent (stateOf (startCourse courses c st))"
proof -
  assume c: "consistent st"
  let ?st0 = "navigateToPage ''courses'' (st\<lparr>currentCourse := Some c, currentLesson := 0\<rparr>)"
  have c0: "consistent ?st0"
    using c by (simp add: consistent_def navigateToPage_def)
  have c1: "consistent (stateOf (showCourseContent courses ?st0))"
    using consistent_loadLesson [OF c0] c0
    by (auto simp add: showCourseContent_def split: option.splits)
  show ?thesis
    using c1
    by (cases "showCourseContent courses ?st0")
       (auto simp add: startCourse_def Let_def intro!: consistent_checkAndAwardBadge)
qed

lemma consistent_loginUser: "consistent st \<Longrightarrow> consistent (loginUser now u st)"
  unfolding loginUser_def showNotification_def
  by (intro consistent_dom_fields consistent_updateStreak)
     (simp add: consistent_def storedOK_def)

lemma consistent_logout: "consistent st \<Longrightarrow> consistent (logout st)"
  by (simp add: logout_def navigateToPage_def consistent_def storedOK_def)

lemma consistent_hideQuizModal: "consistent st \<Longrightarrow> consistent (hideQuizModal st)"
  by (simp add: hideQuizModal_def consistent_def)

lemma consistent_step: "consistent st \<Longrightarrow> consistent (step courses now op st)"
  by (cases op)
     (auto split: option.splits quizContent.splits
        intro!: consistent_startCourse consistent_loadLesson consistent_previousLesson
          consistent_nextLesson consistent_proceedToNextLesson consistent_submitQuiz
          consistent_markLessonCompleted consistent_completeCourse consistent_checkAndAwardBadge
          consistent_updateStreak consistent_updateLevel' consistent_saveUserData
          consistent_loginUser consistent_logout consistent_dom_fields consistent_hideQuizModal)

lemma consistent_loadUserData:
  "consistent st \<Longrightarrow> consistent (stateOf (loadUserData now st))"
proof -
  assume c: "consistent st"
  have ld: "consistent (updateStreak now
      (st\<lparr>currentUser := Some u, userProgress := data_progress d,
          currentCourse := data_currentCourse d, currentLesson := data_currentLesson d\<rparr>))"
    if "map_of (userDataItems (localStorage st)) (email u) = Some (Json d)" for u d
    using c storedOK_lookup [OF _ that]
    by (intro consistent_updateStreak) (simp add: consistent_def)
  have nd: "consistent (updateStreak now (st\<lparr>currentUser := Some u\<rparr>))" for u
    using c by (intro consistent_updateStreak consistent_dom_fields)
  show ?thesis
    using c ld nd
    by (simp add: loadUserData_def Let_def consistent_dom_fields split: option.splits item.splits)
qed

lemma consistent_pageLoad: "storedOK ls \<Longrightarrow> consistent (pageLoad now ls)"
  unfolding pageLoad_def
  by (intro consistent_loadUserData) (simp add: consistent_def AppState_def wellFormed_default)

lemma consistent_sessionStep:
  "consistent st \<Longrightarrow> consistent (sessionStep courses now ev st)"
proof (cases ev)
  case (Operation op)
  assume "consistent st"
  then show ?thesis using Operation by (simp add: consistent_step)
next
  case Reload
  assume "consistent st"
  then have "storedOK (localStorage st)" by (simp add: consistent_def)
  then show ?thesis using Reload by (simp add: consistent_pageLoad)
qed

lemma consistent_session:
  "consistent st \<Longrightarrow> consistent (session courses evs st)"
  by (induction evs arbitrary: st) (auto simp add: consistent_sessionStep)

lemma consistent_run:
  "consistent st \<Longrightarrow> consistent (run courses ops st)"
  by (induction ops arbitrary: st) (auto simp add: consistent_step)

subsection \<open>A session that completes a course; the level\<close>

lemma lookup_satellites: "CoursesData ''satellites'' = Some CoursesData_satellites"
  by (simp add: CoursesData_def)

lemma length_satellites: "length (lessons CoursesData_satellites) = 2"
  by (simp add: CoursesData_satellites_def)

lemma find_first_lesson:
  "find (\<lambda>b. badge_id b = ''first_lesson'') BadgeSystem_badges =
     Some \<lparr>badge_id = ''first_lesson'', badge_name = ''First Steps'',
        description = ''Complete your first lesson''\<rparr>"
  by (simp add: BadgeSystem_badges_def)

lemma pageLoad_emptyStorage: "pageLoad now emptyStorage = AppState emptyStorage"
  by (simp add: pageLoad_def loadUserData_def AppState_def emptyStorage_def)

lemma startCourse_satellites:
  "startCourse CoursesData ''satellites'' (AppState emptyStorage) = Done startedState"
  by (simp add: startCourse_def showCourseContent_def navigateToPage_def AppState_def
      lookup_satellites length_satellites find_first_lesson
      loadLesson_def checkAndAwardBadge_def saveUserData_def showBadgeNotification_def
      showNotification_def defaultProgress_def startedState_def startedProgress_def)

lemma startedState_fields:
  "currentCourse startedState = Some ''satellites''" "currentLesson startedState = 0"
  by (simp_all add: startedState_def)

lemma markLessonCompleted_started:
  "markLessonCompleted (utc 0) ''satellites'' 0 startedState =
     startedState\<lparr>userProgress := lesson0Progress\<rparr>"
  by (simp add: markLessonCompleted_def completedOf_def Let_def updateLevel_def newLevel_div
      updateStreak_def toDateString_def localDate_def utc_def saveUserData_def startedState_def startedProgress_def
      lesson0Progress_def)

lemma proceed_started: "proceedToNextLesson CoursesData (utc 0) startedState = Done lesson0State"
proof -
  have "checkAndAwardBadge ''first_lesson'' lesson0State = lesson0State"
    by (rule checkAndAwardBadge_held) (simp add: lesson0State_def lesson0Progress_def)
  then show ?thesis
    by (simp add: proceedToNextLesson_def startedState_fields markLessonCompleted_started
        lookup_satellites length_satellites loadLesson_def lesson0State_def)
qed

lemma lesson0State_fields:
  "currentCourse lesson0State = Some ''satellites''" "currentLesson lesson0State = Suc 0"
  "userProgress lesson0State = lesson0Progress" "currentUser lesson0State = None"
  by (simp_all add: lesson0State_def startedState_def)

lemma markLessonCompleted_lesson0:
  "markLessonCompleted (utc 0) ''satellites'' (Suc 0) lesson0State =
     lesson0State\<lparr>userProgress := lesson1Progress\<rparr>"
  by (simp add: markLessonCompleted_def completedOf_def Let_def updateLevel_def newLevel_div
      updateStreak_def toDateString_def localDate_def utc_def saveUserData_def lesson0State_fields
      lesson0Progress_def lesson1Progress_def)

lemma proceed_lesson0:
  "proceedToNextLesson CoursesData (utc 0) lesson0State =
     Done (completeCourse (Some ''satellites'') (lesson0State\<lparr>userProgress := lesson1Progress\<rparr>))"
  by (simp add: proceedToNextLesson_def lesson0State_fields markLessonCompleted_lesson0
      lookup_satellites length_satellites)

lemma completeCourse_level:
  "level (userProgress (completeCourse c st)) =
     max (level (userProgress st)) (newLevel (xp (userProgress st) + 100))"
  by (simp add: completeCourse_def Let_def showCertificateModal_def)

lemma run_completeSatellites:
  "run CoursesData completeSatellites (AppState emptyStorage) =
     completeCourse (Some ''satellites'') (lesson0State\<lparr>userProgress := lesson1Progress\<rparr>)"
  by (simp add: completeSatellites_def startCourse_satellites proceed_started proceed_lesson0)

lemma session_run:
  "session courses (map (\<lambda>(now, op). (now, Operation op)) ops) st = run courses ops st"
  by (induction ops arbitrary: st) auto

text \<open>
  C2. The level computed from an XP value is \<open>floor(xp / 100) + 1\<close>: 1 at 0 and at 99, 2
  at 100, 3 at 250. \<open>updateLevel\<close> stores that value whenever the stored level is not
  above it, and in every state a browsing history reaches (a page load over stored
  progress the program wrote, followed by any operations and reloads) the stored level
  equals the level computed from the stored XP, which is not negative.
\<close>

theorem level_derived:
  "newLevel 0 = 1 \<and> newLevel 99 = 1 \<and> newLevel 100 = 2 \<and> newLevel 250 = 3 \<and>
   newLevel x = x div 100 + 1 \<and>
   (level (userProgress st) \<le> newLevel (xp (userProgress st)) \<longrightarrow>
      level (userProgress (updateLevel st)) = newLevel (xp (userProgress (updateLevel st)))) \<and>
   (storedOK ls \<longrightarrow>
      level (userProgress (session courses evs (pageLoad now ls))) =
        newLevel (xp (userProgress (session courses evs (pageLoad now ls)))) \<and>
      0 \<le> xp (userProgress (session courses evs (pageLoad now ls))))"
proof -
  have "consistent (session courses evs (pageLoad now ls))" if "storedOK ls"
    using that by (intro consistent_session consistent_pageLoad)
  then show ?thesis
    by (simp add: newLevel_div consistent_def wellFormed_def)
qed

theorem level_derived_witness:
  "storedOK emptyStorage \<and>
   xp (userProgress (session CoursesData (map (\<lambda>(now, op). (now, Operation op)) completeSatellites)
         (pageLoad (utc 0) emptyStorage))) = 150 \<and>
   level (userProgress (session CoursesData (map (\<lambda>(now, op). (now, Operation op)) completeSatellites)
         (pageLoad (utc 0) emptyStorage))) = 2 \<and>
   level (userProgress ((AppState emptyStorage)\<lparr>userProgress := defaultProgress\<lparr>xp := 250\<rparr>\<rparr>))
     \<le> newLevel (xp (userProgress ((AppState emptyStorage)\<lparr>userProgress := defaultProgress\<lparr>xp := 250\<rparr>\<rparr>))) \<and>
   level (userProgress (updateLevel
     ((AppState emptyStorage)\<lparr>userProgress := defaultProgress\<lparr>xp := 250\<rparr>\<rparr>))) = 3"
proof -
  have s: "storedOK emptyStorage"
    by (simp add: storedOK_def emptyStorage_def)
  have x: "xp (userProgress (session CoursesData (map (\<lambda>(now, op). (now, Operation op)) completeSatellites)
         (pageLoad (utc 0) emptyStorage))) = 150"
    by (simp add: session_run pageLoad_emptyStorage run_completeSatellites lesson1Progress_def)
  show ?thesis
    using s x level_derived [of 150 "(AppState emptyStorage)\<lparr>userProgress := defaultProgress\<lparr>xp := 250\<rparr>\<rparr>"
        emptyStorage CoursesData "map (\<lambda>(now, op). (now, Operation op)) completeSatellites" "utc 0"]
    by (simp add: AppState_def defaultProgress_def)
qed

subsection \<open>Badge awards\<close>

text \<open>
  C3. Every badge rule of SpaceEd awards through \<open>checkAndAwardBadge\<close>, and the climate
  dashboard awards through \<open>awardBadge\<close>. For every badge identifier and every state, a
  second evaluation right after the first changes nothing at all: no badge is added, no
  notification is shown, nothing is written. A badge list without duplicates stays
  without duplicates, an award never raises the count of a badge above its earlier
  count or one, and in every state a browsing history reaches the badge list has no
  duplicates.
\<close>

theorem badge_award_once:
  "checkAndAwardBadge badgeId (checkAndAwardBadge badgeId st) = checkAndAwardBadge badgeId st \<and>
   notifications (checkAndAwardBadge badgeId (checkAndAwardBadge badgeId st)) =
     notifications (checkAndAwardBadge badgeId st) \<and>
   (distinct (badges (userProgress st)) \<longrightarrow>
      distinct (badges (userProgress (checkAndAwardBadge badgeId st)))) \<and>
   count_list (badges (userProgress (checkAndAwardBadge badgeId st))) badgeId =
     max 1 (count_list (badges (userProgress st)) badgeId) \<and>
   (storedOK ls \<longrightarrow> distinct (badges (userProgress (session courses evs (pageLoad now ls))))) \<and>
   awardBadge icon' name (awardBadge icon name cs) = awardBadge icon name cs \<and>
   badgeNotifications (awardBadge icon' name (awardBadge icon name cs)) =
     badgeNotifications (awardBadge icon name cs) \<and>
   (distinct (map snd (cg_badges (userData cs))) \<longrightarrow>
      distinct (map snd (cg_badges (userData (awardBadge icon name cs)))))"
proof -
  have "consistent (session courses evs (pageLoad now ls))" if "storedOK ls"
    using that by (intro consistent_session consistent_pageLoad)
  then have d: "storedOK ls \<longrightarrow> distinct (badges (userProgress (session courses evs (pageLoad now ls))))"
    by (simp add: consistent_def wellFormed_def)
  have c: "count_list (badges (userProgress (checkAndAwardBadge badgeId st))) badgeId =
     max 1 (count_list (badges (userProgress st)) badgeId)"
  proof (cases "badgeId \<in> set (badges (userProgress st))")
    case True
    then have "count_list (badges (userProgress st)) badgeId \<noteq> 0"
      by (simp only: count_list_0_iff not_not)
    then have "0 < count_list (badges (userProgress st)) badgeId"
      by simp
    then show ?thesis using True by (simp add: checkAndAwardBadge_count max_def)
  next
    case False
    then show ?thesis by (simp add: checkAndAwardBadge_count count_list_0_iff)
  qed
  show ?thesis
    using c d
    by (simp add: checkAndAwardBadge_idem checkAndAwardBadge_distinct awardBadge_idem
        awardBadge_distinct)
qed

theorem badge_award_once_witness:
  "distinct (badges (userProgress (AppState emptyStorage))) \<and>
   badges (userProgress (checkAndAwardBadge ''explorer'' (AppState emptyStorage))) = [''explorer''] \<and>
   badges (userProgress (checkAndAwardBadge ''explorer''
     (checkAndAwardBadge ''explorer'' (AppState emptyStorage)))) = [''explorer''] \<and>
   storedOK emptyStorage \<and>
   distinct (badges (userProgress (session CoursesData [(utc 0, Operation (CheckAndAwardBadge ''explorer'')),
      (utc 5, Reload), (utc 9, Operation (CheckAndAwardBadge ''explorer''))] (pageLoad (utc 0) emptyStorage)))) \<and>
   distinct (map snd (cg_badges (userData emptyClimateState))) \<and>
   cg_badges (userData (awardBadge icon_calendar ''Week Warrior''
     (awardBadge icon_calendar ''Week Warrior'' emptyClimateState))) =
     [(icon_calendar, ''Week Warrior'')]"
proof -
  have s: "storedOK emptyStorage"
    by (simp add: storedOK_def emptyStorage_def)
  have a: "badges (userProgress (checkAndAwardBadge ''explorer'' (AppState emptyStorage))) = [''explorer'']"
    by (simp add: checkAndAwardBadge_progress AppState_def defaultProgress_def)
  have b: "cg_badges (userData (awardBadge icon_calendar ''Week Warrior'' emptyClimateState)) =
     [(icon_calendar, ''Week Warrior'')]"
    by (simp add: awardBadge_badges emptyClimateState_def)
  show ?thesis
    using s a b
      badge_award_once [of "''explorer''" "AppState emptyStorage" emptyStorage CoursesData
        "[(utc 0, Operation (CheckAndAwardBadge ''explorer'')),
      (utc 5, Reload), (utc 9, Operation (CheckAndAwardBadge ''explorer''))]" "utc 0" icon_calendar "''Week Warrior''"
        icon_calendar emptyClimateState]
    by (simp add: AppState_def defaultProgress_def emptyClimateState_def)
qed

subsection \<open>A second submission\<close>

lemma selectAnswer_first:
  "\<not> answered (currentQuiz cs) \<Longrightarrow> questionIndex (currentQuiz cs) < length qs \<Longrightarrow>
   selectAnswer qs i cs =
     Finished (cs\<lparr>currentQuiz := (currentQuiz cs)
                 \<lparr>answered := True,
                  score := score (currentQuiz cs) +
                    (if i = correct (qs ! questionIndex (currentQuiz cs)) then 1 else 0)\<rparr>,
               quizOptions := map (\<lambda>(index, el).
                   markOption (correct (qs ! questionIndex (currentQuiz cs))) i index el)
                 (enumerate 0 (quizOptions cs)),
               timers := timers cs + 1\<rparr>)"
  by (simp add: selectAnswer_def Let_def)

lemma startQuiz_quizQuestions:
  "currentQuiz (startQuiz quizQuestions cs) = \<lparr>questionIndex = 0, score = 0, answered = False\<rparr>"
  "quizOptions (startQuiz quizQuestions cs) = [freshOption, freshOption, freshOption, freshOption]"
  "length quizQuestions = 10" "correct (quizQuestions ! 0) = 1"
  by (simp_all add: startQuiz_def showQuestion_def quizQuestions_def Let_def)

text \<open>
  C5. A second submission on the same quiz presentation changes neither score nor
  progress. In SpaceEd the first accepted \<open>submitQuiz\<close> replaces the form by the result
  view, so a second call finds no checked input: it raises the alert and returns,
  leaving everything else (progress and stored data included) as it was, and the Submit
  button itself is gone. In the climate quiz \<open>selectAnswer\<close> returns at once when
  \<open>answered\<close> is set, which every earlier call on the question has done, so a second
  call leaves the whole state unchanged.
\<close>

theorem second_submit_no_effect:
  "(checkedAnswer (quizContent st) = Some userAnswer \<longrightarrow>
      submitQuiz c' (submitQuiz c st) =
        (submitQuiz c st)\<lparr>alerts := alerts (submitQuiz c st) @
           [''Please select an answer before submitting.'']\<rparr> \<and>
      userProgress (submitQuiz c' (submitQuiz c st)) = userProgress (submitQuiz c st) \<and>
      localStorage (submitQuiz c' (submitQuiz c st)) = localStorage (submitQuiz c st) \<and>
      step courses now ClickSubmit (submitQuiz c st) = submitQuiz c st) \<and>
   (selectAnswer qs i cs = Finished cs' \<longrightarrow> selectAnswer qs j cs' = Finished cs') \<and>
   (selectAnswer qs i cs = Failed e cs' \<longrightarrow> selectAnswer qs j cs' = Finished cs')"
  by (auto simp add: submitQuiz_rejected submitQuiz_quizContent
      dest: selectAnswer_answered selectAnswer_answered_failed intro: selectAnswer_noop)

theorem second_submit_no_effect_witness:
  "checkedAnswer (quizContent answeredForm) = Some 2 \<and>
   xp (userProgress (submitQuiz 2 answeredForm)) = 10 \<and>
   xp (userProgress (submitQuiz 2 (submitQuiz 2 answeredForm))) = 10 \<and>
   (\<exists>cs'. selectAnswer quizQuestions 1 (startQuiz quizQuestions emptyClimateState) = Finished cs' \<and>
      score (currentQuiz cs') = 1 \<and>
      selectAnswer quizQuestions 1 cs' = Finished cs')"
proof -
  have a: "checkedAnswer (quizContent answeredForm) = Some 2"
    by (simp add: answeredForm_def)
  have x: "xp (userProgress (submitQuiz 2 answeredForm)) = 10"
    using a by (simp add: submitQuiz_progress_xp) (simp add: answeredForm_def AppState_def defaultProgress_def)
  obtain cs' where f: "selectAnswer quizQuestions 1 (startQuiz quizQuestions emptyClimateState) = Finished cs'"
    and s: "score (currentQuiz cs') = 1"
    using selectAnswer_first [of "startQuiz quizQuestions emptyClimateState" quizQuestions 1]
    by (simp add: startQuiz_quizQuestions)
  show ?thesis
    using a x f s
      second_submit_no_effect [of answeredForm 2 2 2 CoursesData "utc 0" quizQuestions 1
        "startQuiz quizQuestions emptyClimateState" cs' 1]
    by simp
qed

subsection \<open>Quiz outcome and disclosure\<close>

lemma showQuestion_in_range:
  "questionIndex (currentQuiz cs) < length qs \<Longrightarrow>
   showQuestion qs cs =
     cs\<lparr>quizOptions := replicate (length (options (qs ! questionIndex (currentQuiz cs)))) freshOption,
        currentQuiz := (currentQuiz cs)\<lparr>answered := False\<rparr>\<rparr>"
  by (simp add: showQuestion_def Let_def)

text \<open>
  C6 as amended. Both quizzes compute \<open>isCorrect\<close> as the equality of the chosen index
  and the quiz's correct index on a first submission. The climate quiz discloses the
  right option every time: after \<open>selectAnswer\<close> on a freshly shown question, with the
  chosen index in range, the score has grown by one exactly for a right answer, every
  option is locked, the option at the correct index (and no other) is marked correct,
  and a wrong choice (and nothing else) is marked incorrect. The SpaceEd quiz shows a
  result view determined by \<open>isCorrect\<close> alone.
\<close>

theorem quiz_outcome:
  "(quizContent st = QuizForm (Some userAnswer) n correctAnswer \<longrightarrow>
      quizContent (step courses now ClickSubmit st) = QuizResults (userAnswer = correctAnswer)) \<and>
   (questionIndex (currentQuiz cs) < length qs \<and>
    selectedIndex < length (options (qs ! questionIndex (currentQuiz cs))) \<longrightarrow>
      (\<exists>cs'. selectAnswer qs selectedIndex (showQuestion qs cs) = Finished cs' \<and>
         score (currentQuiz cs') = score (currentQuiz cs) +
           (if selectedIndex = correct (qs ! questionIndex (currentQuiz cs)) then 1 else 0) \<and>
         length (quizOptions cs') = length (options (qs ! questionIndex (currentQuiz cs))) \<and>
         (\<forall>k < length (options (qs ! questionIndex (currentQuiz cs))).
            cls_correct (quizOptions cs' ! k) = (k = correct (qs ! questionIndex (currentQuiz cs))) \<and>
            cls_incorrect (quizOptions cs' ! k) =
              (k = selectedIndex \<and> k \<noteq> correct (qs ! questionIndex (currentQuiz cs))) \<and>
            \<not> pointerEvents (quizOptions cs' ! k))))"
proof -
  have a: "quizContent st = QuizForm (Some userAnswer) n correctAnswer \<longrightarrow>
      quizContent (step courses now ClickSubmit st) = QuizResults (userAnswer = correctAnswer)"
    by (simp add: submitQuiz_quizContent)
  have b: "\<exists>cs'. selectAnswer qs selectedIndex (showQuestion qs cs) = Finished cs' \<and>
         score (currentQuiz cs') = score (currentQuiz cs) +
           (if selectedIndex = correct (qs ! questionIndex (currentQuiz cs)) then 1 else 0) \<and>
         length (quizOptions cs') = length (options (qs ! questionIndex (currentQuiz cs))) \<and>
         (\<forall>k < length (options (qs ! questionIndex (currentQuiz cs))).
            cls_correct (quizOptions cs' ! k) = (k = correct (qs ! questionIndex (currentQuiz cs))) \<and>
            cls_incorrect (quizOptions cs' ! k) =
              (k = selectedIndex \<and> k \<noteq> correct (qs ! questionIndex (currentQuiz cs))) \<and>
            \<not> pointerEvents (quizOptions cs' ! k))"
    if q: "questionIndex (currentQuiz cs) < length qs"
  proof -
    let ?cs = "showQuestion qs cs"
    have na: "\<not> answered (currentQuiz ?cs)" and qi: "questionIndex (currentQuiz ?cs) < length qs"
      using q by (simp_all add: showQuestion_in_range)
    show ?thesis
      unfolding selectAnswer_first [OF na qi]
      using q by (simp add: showQuestion_in_range nth_enumerate_eq markOption_def freshOption_def)
  qed
  show ?thesis using a b by blast
qed

theorem quiz_outcome_witness:
  "quizContent (answeredForm\<lparr>quizContent := QuizForm (Some 0) 4 2\<rparr>) = QuizForm (Some 0) 4 2 \<and>
   quizContent (step CoursesData (utc 0) ClickSubmit (answeredForm\<lparr>quizContent := QuizForm (Some 0) 4 2\<rparr>)) =
     QuizResults False \<and>
   questionIndex (currentQuiz emptyClimateState) < length quizQuestions \<and>
   2 < length (options (quizQuestions ! questionIndex (currentQuiz emptyClimateState))) \<and>
   (\<exists>cs'. selectAnswer quizQuestions 2 (showQuestion quizQuestions emptyClimateState) = Finished cs' \<and>
      score (currentQuiz cs') = 0 \<and>
      cls_correct (quizOptions cs' ! 1) \<and> cls_incorrect (quizOptions cs' ! 2) \<and>
      \<not> cls_correct (quizOptions cs' ! 2))"
proof -
  have q: "questionIndex (currentQuiz emptyClimateState) = 0"
          "score (currentQuiz emptyClimateState) = 0"
    by (simp_all add: emptyClimateState_def)
  have l: "length quizQuestions = 10" "correct (quizQuestions ! 0) = 1"
          "length (options (quizQuestions ! 0)) = 4"
    by (simp_all add: quizQuestions_def)
  show ?thesis
    using quiz_outcome [of "answeredForm\<lparr>quizContent := QuizForm (Some 0) 4 2\<rparr>" 0 4 2 CoursesData "utc 0"
        emptyClimateState quizQuestions 2]
    by (auto simp add: q l)
qed

text \<open>
  The SpaceEd result view does not disclose the correct index: after the same wrong
  choice 0 on two quizzes of the catalogue whose correct indices are 2 and 1, the
  whole state is the same.
\<close>

theorem submitQuiz_hides_correct_index:
  "step CoursesData (utc 0) ClickSubmit
     (step CoursesData (utc 0) (ClickOption 0) (showQuiz quizLift (AppState emptyStorage))) =
   step CoursesData (utc 0) ClickSubmit
     (step CoursesData (utc 0) (ClickOption 0) (showQuiz quizPlanets (AppState emptyStorage))) \<and>
   correct quizLift = 2 \<and> correct quizPlanets = 1 \<and>
   quizContent (step CoursesData (utc 0) ClickSubmit
     (step CoursesData (utc 0) (ClickOption 0) (showQuiz quizLift (AppState emptyStorage)))) =
     QuizResults False"
  by (simp add: showQuiz_def quizLift_def quizPlanets_def submitQuiz_def showQuizResults_def
      saveUserData_def AppState_def)

subsection \<open>The first badge; loading stored progress\<close>

text \<open>
  C8. \<open>loadLesson\<close> awards \<open>first_lesson\<close> whenever a lesson is displayed: starting a
  course from the fresh state awards the badge although no lesson has been completed.
\<close>

theorem first_lesson_awarded_on_display:
  "startCourse CoursesData ''satellites'' (AppState emptyStorage) = Done startedState \<and>
   completedLessons (userProgress startedState) = [] \<and>
   xp (userProgress startedState) = 0 \<and>
   badges (userProgress startedState) = [''first_lesson''] \<and>
   description (BadgeSystem_badges ! 0) = ''Complete your first lesson''"
  by (simp add: startCourse_satellites startedState_def startedProgress_def BadgeSystem_badges_def)

lemma loadUserData_malformed:
  "currentUserItem (localStorage st) = Some Malformed \<Longrightarrow>
     loadUserData now st = Thrown SyntaxError st"
  "currentUserItem (localStorage st) = Some (Json u) \<Longrightarrow>
   map_of (userDataItems (localStorage st)) (email u) = Some Malformed \<Longrightarrow>
     loadUserData now st = Thrown SyntaxError (st\<lparr>currentUser := Some u\<rparr>)"
  by (simp_all add: loadUserData_def)

lemma loadUserData_null:
  "currentUserItem (localStorage st) = Some JsonNull \<Longrightarrow>
     loadUserData now st = Thrown TypeError (st\<lparr>currentUser := None\<rparr>)"
  "currentUserItem (localStorage st) = Some (Json u) \<Longrightarrow>
   map_of (userDataItems (localStorage st)) (email u) = Some JsonNull \<Longrightarrow>
     loadUserData now st = Thrown TypeError (st\<lparr>currentUser := Some u\<rparr>)"
  by (simp_all add: loadUserData_def)

text \<open>
  Where nothing stored is broken \<open>loadUserData\<close> returns normally. With no stored
  current user it leaves the state as it is, so the fresh state keeps the default
  progress. With a stored current user and no stored progress the progress is the
  default one when the streak update at the end of \<open>loadUserData\<close> starts, and that
  update sets the streak to 1 and the date to today. With stored progress of the
  program's shape it takes that progress and runs the streak update.
\<close>

lemma loadUserData_well_shaped:
  "(currentUserItem ls = None \<longrightarrow>
      loadUserData now (AppState ls) = Done (AppState ls) \<and>
      userProgress (AppState ls) =
        \<lparr>completedLessons = [], streak = 0, level = 1, xp = 0, lastLoginDate = None, badges = []\<rparr>) \<and>
   (currentUserItem ls = Some (Json u) \<and> map_of (userDataItems ls) (email u) = None \<longrightarrow>
      loadUserData now (AppState ls) =
        Done (updateStreak now ((AppState ls)\<lparr>currentUser := Some u\<rparr>)) \<and>
      userProgress ((AppState ls)\<lparr>currentUser := Some u\<rparr>) =
        \<lparr>completedLessons = [], streak = 0, level = 1, xp = 0, lastLoginDate = None, badges = []\<rparr> \<and>
      userProgress (updateStreak now ((AppState ls)\<lparr>currentUser := Some u\<rparr>)) =
        \<lparr>completedLessons = [], streak = 1, level = 1, xp = 0,
         lastLoginDate = Some (localDate now), badges = []\<rparr>) \<and>
   (currentUserItem ls = Some (Json u) \<and> map_of (userDataItems ls) (email u) = Some (Json d) \<longrightarrow>
      loadUserData now (AppState ls) =
        Done (updateStreak now ((AppState ls)\<lparr>currentUser := Some u,
          userProgress := data_progress d, currentCourse := data_currentCourse d,
          currentLesson := data_currentLesson d\<rparr>)))"
  by (auto simp add: loadUserData_def Let_def AppState_def defaultProgress_def updateStreak_def)

text \<open>
  C9. A stored progress item that is broken is not treated as absent, and
  \<open>loadUserData\<close> fails: with a stored current user and a stored progress text that is
  not valid JSON it throws a \<open>SyntaxError\<close>, and with the stored progress text \<open>null\<close> it
  throws a \<open>TypeError\<close>; in both cases the streak update and the rest of the page
  initialisation after it do not run. Where no progress is stored for the user, the
  load itself leaves the zero-valued default.
\<close>

theorem loadUserData_broken_item_throws:
  "currentUserItem malformedStorage = Some (Json explorer) \<and>
   map_of (userDataItems malformedStorage) (email explorer) = Some Malformed \<and>
   loadUserData (utc 0) (AppState malformedStorage) =
     Thrown SyntaxError ((AppState malformedStorage)\<lparr>currentUser := Some explorer\<rparr>) \<and>
   currentUserItem nullStorage = Some (Json explorer) \<and>
   map_of (userDataItems nullStorage) (email explorer) = Some JsonNull \<and>
   loadUserData (utc 0) (AppState nullStorage) =
     Thrown TypeError ((AppState nullStorage)\<lparr>currentUser := Some explorer\<rparr>) \<and>
   map_of (userDataItems userOnlyStorage) (email explorer) = None \<and>
   loadUserData (utc 0) (AppState userOnlyStorage) =
     Done (updateStreak (utc 0) ((AppState userOnlyStorage)\<lparr>currentUser := Some explorer\<rparr>)) \<and>
   userProgress ((AppState userOnlyStorage)\<lparr>currentUser := Some explorer\<rparr>) =
     \<lparr>completedLessons = [], streak = 0, level = 1, xp = 0, lastLoginDate = None, badges = []\<rparr>"
  by (simp add: loadUserData_def AppState_def malformedStorage_def nullStorage_def
      userOnlyStorage_def emptyStorage_def explorer_def defaultProgress_def)

subsection \<open>Progress only grows\<close>

lemma grows_refl: "grows st st"
  by (simp add: grows_def)

lemma grows_trans: "grows a b \<Longrightarrow> grows b c \<Longrightarrow> grows a c"
  unfolding grows_def by (meson order_trans)

lemma grows_same_progress: "userProgress st' = userProgress st \<Longrightarrow> grows st st'"
  by (simp add: grows_def)

lemma grows_saveUserData: "grows st (saveUserData st)"
  by (simp add: grows_def)

lemma grows_checkAndAwardBadge: "grows st (checkAndAwardBadge b st)"
  by (auto simp add: grows_def)

lemma grows_updateLevel: "grows st (updateLevel st)"
  by (simp add: grows_def)

lemma grows_updateStreak: "grows st (updateStreak now st)"
  using updateStreak_badges by (simp add: grows_def)

lemma grows_markLessonCompleted: "grows st (markLessonCompleted now c i st)"
  using markLessonCompleted_badges [of st now c i]
  by (auto simp add: grows_def markLessonCompleted_xp markLessonCompleted_completedOf)

lemma grows_completeCourse: "grows st (completeCourse c st)"
  by (auto simp add: grows_def)

lemma grows_submitQuiz: "grows st (submitQuiz c st)"
proof (cases "checkedAnswer (quizContent st)")
  case None
  then show ?thesis by (simp add: submitQuiz_rejected grows_def)
next
  case (Some a)
  then show ?thesis
    by (auto simp add: grows_def submitQuiz_def Let_def showQuizResults_def)
qed

lemma grows_loadLesson: "grows st (stateOf (loadLesson courses i st))"
proof -
  have "grows st (checkAndAwardBadge ''first_lesson'' (st\<lparr>prevDisabled := a, nextDisabled := b\<rparr>))"
    for a b
    using grows_checkAndAwardBadge [of "st\<lparr>prevDisabled := a, nextDisabled := b\<rparr>" "''first_lesson''"]
    by (simp add: grows_def)
  then show ?thesis
    by (simp add: loadLesson_def grows_refl split: option.splits)
qed

lemma grows_previousLesson: "grows st (stateOf (previousLesson courses st))"
proof -
  have "grows st (st\<lparr>currentLesson := currentLesson st - 1\<rparr>)"
    by (simp add: grows_def)
  then show ?thesis
    using grows_loadLesson [of "st\<lparr>currentLesson := currentLesson st - 1\<rparr>" courses "currentLesson st - 1"]
    by (auto simp add: previousLesson_def grows_refl intro: grows_trans)
qed

lemma grows_proceedToNextLesson: "grows st (stateOf (proceedToNextLesson courses now st))"
proof -
  let ?st1 = "markLessonCompleted now (keyOf (currentCourse st)) (currentLesson st) st"
  have a: "grows st ?st1" by (rule grows_markLessonCompleted)
  have b: "grows ?st1 (?st1\<lparr>currentLesson := currentLesson ?st1 + 1\<rparr>)"
    by (simp add: grows_def)
  have c: "grows (?st1\<lparr>currentLesson := currentLesson ?st1 + 1\<rparr>)
     (stateOf (loadLesson courses (currentLesson ?st1 + 1) (?st1\<lparr>currentLesson := currentLesson ?st1 + 1\<rparr>)))"
    by (rule grows_loadLesson)
  have d: "grows ?st1 (completeCourse (currentCourse ?st1) ?st1)"
    by (rule grows_completeCourse)
  show ?thesis
    using a grows_trans [OF a grows_trans [OF b c]] grows_trans [OF a d]
    by (simp add: proceedToNextLesson_def Let_def split: option.splits)
qed

lemma grows_nextLesson: "grows st (stateOf (nextLesson courses now st))"
  using grows_proceedToNextLesson [of st courses now]
  by (auto simp add: nextLesson_def showQuiz_def grows_refl split: option.splits)
     (simp_all add: grows_def)

lemma grows_startCourse: "grows st (stateOf (startCourse courses c st))"
proof -
  let ?st0 = "navigateToPage ''courses'' (st\<lparr>currentCourse := Some c, currentLesson := 0\<rparr>)"
  have a: "grows st ?st0" by (simp add: grows_def navigateToPage_def)
  have b: "grows ?st0 (stateOf (showCourseContent courses ?st0))"
    using grows_loadLesson [of ?st0 courses "currentLesson ?st0"]
    by (auto simp add: showCourseContent_def grows_refl split: option.splits)
  have ab: "grows st (stateOf (showCourseContent courses ?st0))"
    by (rule grows_trans [OF a b])
  show ?thesis
  proof (cases "showCourseContent courses ?st0")
    case (Done st1)
    then have "grows st st1" using ab by simp
    then have "grows st (checkAndAwardBadge ''explorer'' st1)"
      using grows_checkAndAwardBadge grows_trans by blast
    then show ?thesis using Done \<open>grows st st1\<close> by (simp add: startCourse_def Let_def)
  next
    case (Thrown e st1)
    then show ?thesis using ab by (simp add: startCourse_def)
  qed
qed

lemma grows_loginUser: "grows st (loginUser now u st)"
proof -
  let ?st0 = "st\<lparr>currentUser := Some u,
            localStorage := (localStorage st)\<lparr>currentUserItem := Some (Json u)\<rparr>\<rparr>"
  have "grows st ?st0" by (simp add: grows_def)
  then have "grows st (updateStreak now ?st0)"
    using grows_updateStreak grows_trans by blast
  then show ?thesis
    by (simp add: loginUser_def grows_def)
qed

lemma grows_logout: "grows st (logout st)"
  by (simp add: logout_def navigateToPage_def grows_def)

lemma grows_step: "grows st (step courses now op st)"
proof (cases op)
  case (ClickLesson index)
  have "grows st (stateOf (loadLesson courses index (st\<lparr>currentLesson := index\<rparr>)))"
    using grows_loadLesson [of "st\<lparr>currentLesson := index\<rparr>" courses index]
    by (simp add: grows_def)
  then show ?thesis using ClickLesson by (simp add: grows_refl split: option.splits)
next
  case (ClickOption index)
  then show ?thesis by (simp add: grows_def split: quizContent.splits)
next
  case ClickSubmit
  then show ?thesis by (simp add: grows_refl grows_submitQuiz split: quizContent.splits)
next
  case ClickResultsButton
  have a: "grows st (stateOf (proceedToNextLesson courses now (hideQuizModal st)))"
    using grows_proceedToNextLesson [of "hideQuizModal st" courses now]
    by (simp add: grows_def hideQuizModal_def)
  have b: "grows st (stateOf (loadLesson courses (currentLesson st) (hideQuizModal st)))"
    using grows_loadLesson [of "hideQuizModal st" courses "currentLesson st"]
    by (simp add: grows_def hideQuizModal_def)
  show ?thesis using ClickResultsButton a b by (simp add: grows_refl split: quizContent.splits)
next
  case HideQuizModal
  then show ?thesis by (simp add: grows_def hideQuizModal_def)
qed (simp_all add: grows_refl grows_startCourse grows_previousLesson grows_nextLesson
      grows_proceedToNextLesson grows_loadLesson grows_submitQuiz grows_markLessonCompleted
      grows_completeCourse grows_checkAndAwardBadge grows_updateStreak grows_updateLevel
      grows_saveUserData grows_loginUser grows_logout)

lemma grows_run: "grows st (run courses ops st)"
proof (induction ops arbitrary: st)
  case Nil
  show ?case by (simp add: grows_refl)
next
  case (Cons a ops)
  obtain now op where a: "a = (now, op)" by (cases a)
  show ?case
    using grows_trans [OF grows_step [of st courses now op] Cons.IH [of "step courses now op st"]]
    by (simp add: a)
qed

text \<open>
  C7. Across every sequence of operations of a page session (lesson completion, quiz
  submission, badge evaluation, streak update, navigation, login and logout), from any
  state: XP never decreases, no badge identifier leaves the badge list, and no
  completed lesson index leaves the list of any course.
\<close>

theorem progress_only_grows:
  "xp (userProgress st) \<le> xp (userProgress (run courses ops st)) \<and>
   set (badges (userProgress st)) \<subseteq> set (badges (userProgress (run courses ops st))) \<and>
   set (completedOf courseId (userProgress st)) \<subseteq>
     set (completedOf courseId (userProgress (run courses ops st)))"
  using grows_run [of st courses ops] by (simp add: grows_def)

theorem progress_only_grows_witness:
  "xp (userProgress lesson0State) = 25 \<and>
   xp (userProgress (run CoursesData [(utc 0, ProceedToNextLesson)] lesson0State)) = 150 \<and>
   set (badges (userProgress lesson0State)) \<subseteq>
     set (badges (userProgress (run CoursesData [(utc 0, ProceedToNextLesson)] lesson0State))) \<and>
   set (completedOf ''satellites'' (userProgress lesson0State)) = {0} \<and>
   0 \<in> set (completedOf ''satellites''
         (userProgress (run CoursesData [(utc 0, ProceedToNextLesson)] lesson0State)))"
proof -
  have c: "set (completedOf ''satellites'' (userProgress lesson0State)) = {0}"
    by (simp add: lesson0State_fields lesson0Progress_def completedOf_def)
  show ?thesis
    using c progress_only_grows [of lesson0State CoursesData "[(utc 0, ProceedToNextLesson)]" "''satellites''"]
    by (simp add: proceed_lesson0 lesson1Progress_def lesson0State_fields lesson0Progress_def)
qed

subsection \<open>Course completion can be repeated\<close>


end
